theory Spec2Isabelle
  imports Complex_Main "HOL-Library.AList" "HOL-Library.Char_ord" "HOL-Library.List_Lexorder"
    "HOL-Library.Multiset"
begin

section \<open>Values of the store and of request bodies\<close>

text \<open>
  The bot keeps one process-wide dictionary, \<^verbatim>\<open>user_data\<close>, loaded from a JSON file and
  written back after every change. Its values, and the bodies of the dashboard's requests,
  are JSON values. A Python dictionary keeps its keys in insertion order, so an object is
  an association list; \<open>map_of d k\<close> is \<^verbatim>\<open>d.get(k)\<close> and \<open>AList.update k v d\<close> is
  \<^verbatim>\<open>d[k] = v\<close> (the value is replaced in place, a new key goes to the end).
  JSON arrays and numbers with a fraction do not occur in what the program writes and are
  left out of the model.

  A Python \<^verbatim>\<open>str\<close> is a \<open>string\<close> with one \<open>char\<close> for each character, over an
  alphabet of 256 characters: the first 128 values of \<open>char\<close> are ASCII, and the values
  from 128 are the characters of the Windows-1252 code page, which is Latin-1 from 160
  and has the en dash U+2013 of the status \<^verbatim>\<open>On-Time\<close> at 150. The five positions that
  code page leaves free are taken by U+039C at 129 and U+0191 at 141, the upper-case forms
  of the micro sign and of the florin sign, and by the control characters U+008F, U+0090
  and U+009D at their own numbers; with them the alphabet is closed under
  \<^verbatim>\<open>str.upper()\<close>. \<open>code_point\<close> below gives the Unicode number of a char. Text with a
  character outside this alphabet is outside the model.

  Entries are values here: the one alias the program creates, between a wizard session
  and its \<^verbatim>\<open>_pending\<close> copy, is not tracked.
\<close>

datatype json = JNull | JBool bool | JInt int | JStr string | JObj "(string \<times> json) list"

type_synonym dict = "(string \<times> json) list"

text \<open>What a handler raises: FastAPI turns \<open>HTTPException n\<close> into status \<open>n\<close> and every
  other exception that leaves the handler into status 500.\<close>

datatype exn = HTTPException nat | TypeError | AttributeError | KeyError

definition en_dash :: char where
  "en_dash = CHR 0x96"

text \<open>\<^verbatim>\<open>bool(x)\<close>, as \<^verbatim>\<open>not x\<close> and \<^verbatim>\<open>x or y\<close> read it.\<close>

fun py_truthy :: "json \<Rightarrow> bool" where
  "py_truthy JNull = False"
| "py_truthy (JBool b) = b"
| "py_truthy (JInt i) = (i \<noteq> 0)"
| "py_truthy (JStr s) = (s \<noteq> [])"
| "py_truthy (JObj d) = (d \<noteq> [])"

text \<open>\<^verbatim>\<open>d.get(k, default)\<close> on a dictionary.\<close>

definition get_or :: "dict \<Rightarrow> string \<Rightarrow> json \<Rightarrow> json" where
  "get_or d k dflt = (case map_of d k of None \<Rightarrow> dflt | Some v \<Rightarrow> v)"

text \<open>\<^verbatim>\<open>x.get(k, default)\<close> on any value: only a dictionary has the method.\<close>

fun py_get :: "json \<Rightarrow> string \<Rightarrow> json \<Rightarrow> exn + json" where
  "py_get (JObj d) k dflt = Inr (get_or d k dflt)"
| "py_get _ k dflt = Inl AttributeError"

text \<open>\<^verbatim>\<open>sub in s\<close> on two strings.\<close>

fun has_substr :: "string \<Rightarrow> string \<Rightarrow> bool" where
  "has_substr sub [] = (sub = [])"
| "has_substr sub (c # cs) = (take (length sub) (c # cs) = sub \<or> has_substr sub cs)"

text \<open>\<^verbatim>\<open>k in x\<close> for a string \<open>k\<close>: a key of a dictionary, a substring of a string, a
  TypeError on a number, a boolean or None.\<close>

fun py_in :: "string \<Rightarrow> json \<Rightarrow> exn + bool" where
  "py_in k (JObj d) = Inr (k \<in> set (map fst d))"
| "py_in k (JStr s) = Inr (has_substr k s)"
| "py_in k _ = Inl TypeError"

text \<open>\<^verbatim>\<open>x[k]\<close> for a string \<open>k\<close>.\<close>

fun py_subscript :: "json \<Rightarrow> string \<Rightarrow> exn + json" where
  "py_subscript (JObj d) k = (case map_of d k of None \<Rightarrow> Inl KeyError | Some v \<Rightarrow> Inr v)"
| "py_subscript _ k = Inl TypeError"

text \<open>\<^verbatim>\<open>v in S\<close> for a set \<open>S\<close> of strings: the value is hashed first, and a dictionary
  cannot be.\<close>

fun py_in_strset :: "json \<Rightarrow> string list \<Rightarrow> exn + bool" where
  "py_in_strset (JObj d) S = Inl TypeError"
| "py_in_strset (JStr s) S = Inr (s \<in> set S)"
| "py_in_strset _ S = Inr False"

subsection \<open>Text\<close>


text \<open>
  \<^verbatim>\<open>str.upper()\<close>, character by character. In this alphabet the letters with an
  upper-case form are \<^verbatim>\<open>a\<close> to \<^verbatim>\<open>z\<close>, the Latin-1 letters from 224 to 254 (247 is the
  division sign), the sharp s at 223, which becomes \<^verbatim>\<open>SS\<close>, the y with diaeresis at 255,
  whose upper-case form is at 159, the three letters at 154, 156 and 158, whose upper-case
  forms are 16 below, the micro sign at 181 and the florin sign at 131.
\<close>

definition upper_char :: "char \<Rightarrow> string" where
  "upper_char c =
     (if (97 \<le> (of_char c :: nat) \<and> (of_char c :: nat) \<le> 122)
         \<or> (224 \<le> (of_char c :: nat) \<and> (of_char c :: nat) \<le> 254 \<and> (of_char c :: nat) \<noteq> 247)
      then [char_of (of_char c - (32::nat))]
      else if (of_char c :: nat) = 223 then ''SS''
      else if (of_char c :: nat) = 255 then [char_of (159::nat)]
      else if (of_char c :: nat) = 154 \<or> (of_char c :: nat) = 156 \<or> (of_char c :: nat) = 158
      then [char_of (of_char c - (16::nat))]
      else if (of_char c :: nat) = 181 then [char_of (129::nat)]
      else if (of_char c :: nat) = 131 then [char_of (141::nat)]
      else [c])"

definition upper :: "string \<Rightarrow> string" where
  "upper s = concat (map upper_char s)"

text \<open>White space as \<^verbatim>\<open>str.strip()\<close> sees it: tab to carriage return, the four
  separators from 28 to 31, the space, and the no-break space at 160.\<close>

definition is_space :: "char \<Rightarrow> bool" where
  "is_space c =
     (let n = (of_char c :: nat) in (9 \<le> n \<and> n \<le> 13) \<or> (28 \<le> n \<and> n \<le> 32) \<or> n = 160)"

definition strip :: "string \<Rightarrow> string" where
  "strip s = rev (dropWhile is_space (rev (dropWhile is_space s)))"

definition endswith :: "string \<Rightarrow> string \<Rightarrow> bool" where
  "endswith s suf = (length suf \<le> length s \<and> drop (length s - length suf) s = suf)"

definition digit_char :: "nat \<Rightarrow> char" where
  "digit_char n = char_of (48 + n)"

text \<open>\<^verbatim>\<open>str(n)\<close> for an integer.\<close>

fun str_nat :: "nat \<Rightarrow> string" where
  "str_nat n = (if n < 10 then [digit_char n] else str_nat (n div 10) @ [digit_char (n mod 10)])"

definition str_int :: "int \<Rightarrow> string" where
  "str_int i = (if i < 0 then CHR ''-'' # str_nat (nat (- i)) else str_nat (nat i))"

section \<open>Real flights\<close>

text \<open>
  \<^verbatim>\<open>get_real_flights\<close>: the entries of the store that are dictionaries with a
  \<^verbatim>\<open>flight_number\<close>, under a key of length 6 that does not end in \<^verbatim>\<open>_pending\<close>. The
  conjunction is evaluated left to right, so \<^verbatim>\<open>in\<close> is only asked of a dictionary.
\<close>

definition is_real :: "string \<Rightarrow> json \<Rightarrow> bool" where
  "is_real code entry =
     (case entry of
        JObj d \<Rightarrow> ''flight_number'' \<in> set (map fst d) \<and> \<not> endswith code ''_pending''
                  \<and> length code = 6
      | _ \<Rightarrow> False)"

definition get_real_flights :: "dict \<Rightarrow> dict" where
  "get_real_flights user_data = filter (\<lambda>(code, entry). is_real code entry) user_data"

section \<open>Codes\<close>

text \<open>
  The random generator is the sequence of its draws: \<open>rng i\<close> is the \<open>i\<close>-th number it
  will give, and \<^verbatim>\<open>random.choice(seq)\<close> takes the element of \<open>seq\<close> the next draw points
  at.
\<close>

type_synonym rng = "nat \<Rightarrow> nat"

definition alphabet :: string where
  "alphabet = ''ABCDEFGHIJKLMNOPQRSTUVWXYZ0123456789''"

definition random_choice :: "string \<Rightarrow> rng \<Rightarrow> char \<times> rng" where
  "random_choice seq rng = (seq ! (rng 0 mod length seq), \<lambda>i. rng (Suc i))"

text \<open>\<^verbatim>\<open>generate_code(length=6)\<close>: \<open>length\<close> choices from the alphabet, joined.\<close>

fun generate_code :: "nat \<Rightarrow> rng \<Rightarrow> string \<times> rng" where
  "generate_code 0 rng = ([], rng)"
| "generate_code (Suc n) rng =
     (case random_choice alphabet rng of
        (c, rng1) \<Rightarrow> (case generate_code n rng1 of (cs, rng2) \<Rightarrow> (c # cs, rng2)))"

text \<open>\<^verbatim>\<open>generate_ref_code(length=7)\<close> has the same body.\<close>

fun generate_ref_code :: "nat \<Rightarrow> rng \<Rightarrow> string \<times> rng" where
  "generate_ref_code 0 rng = ([], rng)"
| "generate_ref_code (Suc n) rng =
     (case random_choice alphabet rng of
        (c, rng1) \<Rightarrow> (case generate_ref_code n rng1 of (cs, rng2) \<Rightarrow> (c # cs, rng2)))"

text \<open>
  Both places that make a flight code run the same loop,
  \<^verbatim>\<open>code = generate_code()\<close> and then \<^verbatim>\<open>while code in user_data: code = generate_code()\<close>.
  The loop ends only when a draw is not a key; \<open>None\<close> is the run that never ends.
\<close>

partial_function (option) resample :: "dict \<Rightarrow> string \<Rightarrow> rng \<Rightarrow> (string \<times> rng) option" where
  "resample user_data code rng =
     (if code \<in> set (map fst user_data)
      then (case generate_code 6 rng of (code', rng') \<Rightarrow> resample user_data code' rng')
      else Some (code, rng))"

declare resample.simps [code]

definition new_code :: "dict \<Rightarrow> rng \<Rightarrow> (string \<times> rng) option" where
  "new_code user_data rng =
     (case generate_code 6 rng of (code, rng') \<Rightarrow> resample user_data code rng')"

text \<open>\<^verbatim>\<open>handle_exception_and_report\<close> draws its reference code with
  \<^verbatim>\<open>generate_ref_code(7)\<close> and does not look at the store.\<close>

definition err_code :: "rng \<Rightarrow> string \<times> rng" where
  "err_code rng = generate_ref_code 7 rng"

section \<open>Dates\<close>

text \<open>
  \<^verbatim>\<open>datetime.strptime\<close> turns the format into a regular expression and takes its first
  match, alternatives tried left to right: \<^verbatim>\<open>%d\<close> is
  \<^verbatim>\<open>3[0-1]|[1-2]\d|0[1-9]|[1-9]| [1-9]\<close>, \<^verbatim>\<open>%m\<close> is \<^verbatim>\<open>1[0-2]|0[1-9]|[1-9]\<close> and
  \<^verbatim>\<open>%Y\<close> is four digits. It raises ValueError when nothing matches, when the match
  does not reach the end of the text, and when the numbers are no date of the calendar
  (years run from 1). Each \<open>match\<close> function lists the ways one directive can match at
  the start of the text, in the order the expression tries them, with the text left.
\<close>

definition is_digit :: "char \<Rightarrow> bool" where
  "is_digit c = (CHR ''0'' \<le> c \<and> c \<le> CHR ''9'')"

definition is_digit19 :: "char \<Rightarrow> bool" where
  "is_digit19 c = (CHR ''1'' \<le> c \<and> c \<le> CHR ''9'')"

definition digit_val :: "char \<Rightarrow> nat" where
  "digit_val c = of_char c - 48"

fun match_d :: "string \<Rightarrow> (nat \<times> string) list" where
  "match_d (c1 # c2 # r) =
     (if c1 = CHR ''3'' \<and> (c2 = CHR ''0'' \<or> c2 = CHR ''1'') then [(30 + digit_val c2, r)] else [])
     @ (if (c1 = CHR ''1'' \<or> c1 = CHR ''2'') \<and> is_digit c2
        then [(10 * digit_val c1 + digit_val c2, r)] else [])
     @ (if c1 = CHR ''0'' \<and> is_digit19 c2 then [(digit_val c2, r)] else [])
     @ (if is_digit19 c1 then [(digit_val c1, c2 # r)] else [])
     @ (if c1 = CHR '' '' \<and> is_digit19 c2 then [(digit_val c2, r)] else [])"
| "match_d [c1] = (if is_digit19 c1 then [(digit_val c1, [])] else [])"
| "match_d [] = []"

fun match_m :: "string \<Rightarrow> (nat \<times> string) list" where
  "match_m (c1 # c2 # r) =
     (if c1 = CHR ''1'' \<and> (c2 = CHR ''0'' \<or> c2 = CHR ''1'' \<or> c2 = CHR ''2'')
      then [(10 + digit_val c2, r)] else [])
     @ (if c1 = CHR ''0'' \<and> is_digit19 c2 then [(digit_val c2, r)] else [])
     @ (if is_digit19 c1 then [(digit_val c1, c2 # r)] else [])"
| "match_m [c1] = (if is_digit19 c1 then [(digit_val c1, [])] else [])"
| "match_m [] = []"

fun match_Y :: "string \<Rightarrow> (nat \<times> string) list" where
  "match_Y (c1 # c2 # c3 # c4 # r) =
     (if is_digit c1 \<and> is_digit c2 \<and> is_digit c3 \<and> is_digit c4
      then [(1000 * digit_val c1 + 100 * digit_val c2 + 10 * digit_val c3 + digit_val c4, r)]
      else [])"
| "match_Y _ = []"

text \<open>A literal character of the format.\<close>

fun match_lit :: "char \<Rightarrow> string \<Rightarrow> string list" where
  "match_lit c (c1 # r) = (if c1 = c then [r] else [])"
| "match_lit c [] = []"

definition is_leap :: "nat \<Rightarrow> bool" where
  "is_leap y = (y mod 4 = 0 \<and> (y mod 100 \<noteq> 0 \<or> y mod 400 = 0))"

definition days_in_month :: "nat \<Rightarrow> nat \<Rightarrow> nat" where
  "days_in_month y m =
     (if m = 2 then (if is_leap y then 29 else 28)
      else if m = 4 \<or> m = 6 \<or> m = 9 \<or> m = 11 then 30 else 31)"

definition valid_date :: "nat \<Rightarrow> nat \<Rightarrow> nat \<Rightarrow> bool" where
  "valid_date y m d = (1 \<le> y \<and> y \<le> 9999 \<and> 1 \<le> m \<and> m \<le> 12 \<and> 1 \<le> d \<and> d \<le> days_in_month y m)"

text \<open>A parsed date is (year, month, day). \<open>None\<close> is the ValueError.\<close>

type_synonym date = "nat \<times> nat \<times> nat"

definition first_match :: "(nat \<times> nat \<times> nat \<times> string) list \<Rightarrow> date option" where
  "first_match ms =
     (case ms of
        [] \<Rightarrow> None
      | (y, m, d, rest) # _ \<Rightarrow> if rest = [] \<and> valid_date y m d then Some (y, m, d) else None)"

text \<open>\<^verbatim>\<open>datetime.strptime(s, "%d%m%Y")\<close>\<close>

definition strptime_dmY :: "string \<Rightarrow> date option" where
  "strptime_dmY s =
     first_match (concat (map (\<lambda>(d, r1). concat (map (\<lambda>(m, r2).
        map (\<lambda>(y, rest). (y, m, d, rest)) (match_Y r2)) (match_m r1))) (match_d s)))"

text \<open>\<^verbatim>\<open>datetime.strptime(s, "%Y-%m-%d")\<close>\<close>

definition strptime_Ymd :: "string \<Rightarrow> date option" where
  "strptime_Ymd s =
     first_match (concat (map (\<lambda>(y, r1). concat (map (\<lambda>r2. concat (map (\<lambda>(m, r3).
        concat (map (\<lambda>r4. map (\<lambda>(d, rest). (y, m, d, rest)) (match_d r4))
          (match_lit CHR ''-'' r3))) (match_m r2))) (match_lit CHR ''-'' r1))) (match_Y s)))"

text \<open>
  \<^verbatim>\<open>strftime\<close>: \<^verbatim>\<open>%d\<close> and \<^verbatim>\<open>%m\<close> print two digits and \<^verbatim>\<open>%B\<close> the English
  month name. \<^verbatim>\<open>%Y\<close> prints the year as the C library of Linux does, without leading
  zeros: a year from 1000 has its four digits on every platform, the year 999 is
  \<^verbatim>\<open>999\<close>.
\<close>

definition pad2 :: "nat \<Rightarrow> string" where
  "pad2 n = [digit_char (n div 10 mod 10), digit_char (n mod 10)]"

definition strftime_Y :: "nat \<Rightarrow> string" where
  "strftime_Y y = str_nat y"

definition strftime_dmY :: "date \<Rightarrow> string" where
  "strftime_dmY dt = (case dt of (y, m, d) \<Rightarrow> pad2 d @ pad2 m @ strftime_Y y)"

definition strftime_Ymd :: "date \<Rightarrow> string" where
  "strftime_Ymd dt = (case dt of (y, m, d) \<Rightarrow> strftime_Y y @ ''-'' @ pad2 m @ ''-'' @ pad2 d)"

definition month_names :: "string list" where
  "month_names = [''January'', ''February'', ''March'', ''April'', ''May'', ''June'', ''July'',
                  ''August'', ''September'', ''October'', ''November'', ''December'']"

definition strftime_B :: "date \<Rightarrow> string" where
  "strftime_B dt = (case dt of (y, m, d) \<Rightarrow> month_names ! (m - 1))"

text \<open>\<^verbatim>\<open>"th" if 11 <= day <= 13 else {1:"st",2:"nd",3:"rd"}.get(day % 10, "th")\<close>\<close>

definition ordinal_suffix :: "nat \<Rightarrow> string" where
  "ordinal_suffix day =
     (if 11 \<le> day \<and> day \<le> 13 then ''th''
      else (case map_of [(1::nat, ''st''), (2, ''nd''), (3, ''rd'')] (day mod 10) of
              Some s \<Rightarrow> s | None \<Rightarrow> ''th''))"

text \<open>\<^verbatim>\<open>format_date_ordinal\<close>: every exception of the body is caught and gives the input
  back.\<close>

definition format_date_ordinal :: "string \<Rightarrow> string" where
  "format_date_ordinal date_raw =
     (case strptime_dmY date_raw of
        None \<Rightarrow> date_raw
      | Some (y, m, day) \<Rightarrow> str_nat day @ ordinal_suffix day @ '' '' @ strftime_B (y, m, day))"

section \<open>Grouping flights by day\<close>

text \<open>Running a fallible step after another: the first exception ends the run.\<close>

definition and_then :: "exn + 'a \<Rightarrow> ('a \<Rightarrow> exn + 'b) \<Rightarrow> exn + 'b" where
  "and_then m f = (case m of Inl e \<Rightarrow> Inl e | Inr x \<Rightarrow> f x)"


definition is_obj :: "json \<Rightarrow> bool" where
  "is_obj v = (case v of JObj d \<Rightarrow> True | _ \<Rightarrow> False)"




text \<open>
  \<^verbatim>\<open>a < b\<close>: text against text by code points, numbers (and booleans) against numbers,
  and a TypeError for every other pair.
\<close>

definition num_of :: "json \<Rightarrow> int option" where
  "num_of v = (case v of JInt i \<Rightarrow> Some i | JBool b \<Rightarrow> Some (if b then 1 else 0) | _ \<Rightarrow> None)"











section \<open>The dashboard API\<close>

text \<open>
  The handlers are modelled after \<^verbatim>\<open>require_auth\<close> has let the request through and
  \<^verbatim>\<open>request.json()\<close> has parsed the body. A handler returns what it answers (\<open>Inl\<close> an
  exception, \<open>Inr\<close> the JSON of a 200) and the store it leaves. Saving the file, logging
  and the Discord messages sent afterwards are not modelled; of the store those calls
  write only the reserved key \<^verbatim>\<open>_day_msgs\<close> and the \<^verbatim>\<open>admin_message_id\<close> of a new
  entry, which nothing below reads.
\<close>

text \<open>\<^verbatim>\<open>serialize_entry(code, entry)\<close>\<close>

definition serialize_entry :: "string \<Rightarrow> json \<Rightarrow> exn + json" where
  "serialize_entry code entry =
     (case entry of
        JObj e \<Rightarrow>
          (let dep_date_raw = get_or e ''dep_date'' (JStr []);
               dep_date_display =
                 (case dep_date_raw of
                    JStr s \<Rightarrow> (case strptime_dmY s of
                                 Some dt \<Rightarrow> JStr (strftime_Ymd dt)
                               | None \<Rightarrow> dep_date_raw)
                  | _ \<Rightarrow> dep_date_raw)
           in and_then (py_get (get_or e ''gate'' (JObj [])) ''dep'' (JStr ''N/A'')) (\<lambda>gate_dep.
              and_then (py_get (get_or e ''gate'' (JObj [])) ''arr'' (JStr ''N/A'')) (\<lambda>gate_arr.
              and_then (py_get (get_or e ''server'' (JObj [])) ''link'' (JStr ''N/A'')) (\<lambda>server_link.
              and_then (py_get (get_or e ''event'' (JObj [])) ''link'' (JStr ''N/A'')) (\<lambda>event_link.
              Inr (JObj
                [(''code'', JStr code),
                 (''flight_number'', get_or e ''flight_number'' (JStr [])),
                 (''dep_city'', get_or e ''dep_city'' (JStr [])),
                 (''arr_city'', get_or e ''arr_city'' (JStr [])),
                 (''dep_code'', get_or e ''dep_code'' (JStr [])),
                 (''arr_code'', get_or e ''arr_code'' (JStr [])),
                 (''dep_airport'', get_or e ''dep_airport'' (JStr [])),
                 (''arr_airport'', get_or e ''arr_airport'' (JStr [])),
                 (''dep_time'', get_or e ''dep_time'' (JStr [])),
                 (''arr_time'', get_or e ''arr_time'' (JStr [])),
                 (''dep_date'', dep_date_display),
                 (''dep_date_raw'', dep_date_raw),
                 (''duration'', get_or e ''duration'' (JStr [])),
                 (''terminal'', get_or e ''terminal'' (JStr [])),
                 (''aircraft'', get_or e ''aircraft'' (JStr [])),
                 (''meal_service'', get_or e ''meal_service'' (JStr ''N/A'')),
                 (''status'', get_or e ''status'' (JStr ''N/A'')),
                 (''gate_dep'', gate_dep),
                 (''gate_arr'', gate_arr),
                 (''alerts'', get_or e ''alerts'' (JStr ''N/A'')),
                 (''server_link'', server_link),
                 (''event_link'', event_link),
                 (''host_user_id'', get_or e ''host_user_id'' (JStr [])),
                 (''created_at'', get_or e ''created_at'' (JStr []))]))))))
      | _ \<Rightarrow> Inl AttributeError)"

text \<open>\<^verbatim>\<open>user_data.get(code)\<close>: None when the key is missing.\<close>

definition lookup :: "dict \<Rightarrow> string \<Rightarrow> json" where
  "lookup user_data code = get_or user_data code JNull"

text \<open>The test every handler of one flight starts with:
  \<^verbatim>\<open>if not entry or "flight_number" not in entry: raise HTTPException(404)\<close>\<close>

definition found :: "json \<Rightarrow> exn + unit" where
  "found entry =
     (if \<not> py_truthy entry then Inl (HTTPException 404)
      else and_then (py_in ''flight_number'' entry) (\<lambda>has.
             if \<not> has then Inl (HTTPException 404) else Inr ()))"


subsection \<open>PATCH\<close>

text \<open>
  The updaters of \<^verbatim>\<open>field_map\<close>. \<^verbatim>\<open>entry.update({k: v})\<close> needs a dictionary;
  \<^verbatim>\<open>entry.setdefault(k1, {}).update({k2: v})\<close> adds an empty dictionary under \<open>k1\<close>
  when the key is missing and needs a dictionary there when it is not.
\<close>

definition set_field :: "string \<Rightarrow> json \<Rightarrow> json \<Rightarrow> exn + json" where
  "set_field k v entry =
     (case entry of JObj e \<Rightarrow> Inr (JObj (AList.update k v e)) | _ \<Rightarrow> Inl AttributeError)"

definition set_nested :: "string \<Rightarrow> string \<Rightarrow> json \<Rightarrow> json \<Rightarrow> exn + json" where
  "set_nested k1 k2 v entry =
     (case entry of
        JObj e \<Rightarrow>
          (case get_or e k1 (JObj []) of
             JObj g \<Rightarrow> Inr (JObj (AList.update k1 (JObj (AList.update k2 v g)) e))
           | _ \<Rightarrow> Inl AttributeError)
      | _ \<Rightarrow> Inl AttributeError)"

definition field_map :: "(string \<times> (json \<Rightarrow> json \<Rightarrow> exn + json)) list" where
  "field_map =
     [(''status'', set_field ''status''),
      (''alerts'', set_field ''alerts''),
      (''meal_service'', set_field ''meal_service''),
      (''gate_dep'', set_nested ''gate'' ''dep''),
      (''gate_arr'', set_nested ''gate'' ''arr''),
      (''server_link'', set_nested ''server'' ''link''),
      (''event_link'', set_nested ''event'' ''link'')]"

definition VALID_STATUSES :: "string list" where
  "VALID_STATUSES =
     [''On'' @ [en_dash] @ ''Time'', ''Delayed'', ''Cancelled'', ''Rescheduled'', ''N/A'', ''Ended'']"

text \<open>
  \<^verbatim>\<open>for field, updater in field_map.items(): if field in body: updater(body[field])\<close>.
  The updaters change the entry in place, so an exception leaves the entry as the
  updaters before it made it: the result carries the exception, if any, the entry and
  the list \<^verbatim>\<open>updated\<close>.
\<close>

fun apply_fields ::
  "(string \<times> (json \<Rightarrow> json \<Rightarrow> exn + json)) list \<Rightarrow> json \<Rightarrow> json \<Rightarrow> string list
     \<Rightarrow> exn option \<times> json \<times> string list" where
  "apply_fields [] body entry updated = (None, entry, updated)"
| "apply_fields ((field, updater) # rest) body entry updated =
     (case py_in field body of
        Inl e \<Rightarrow> (Some e, entry, updated)
      | Inr False \<Rightarrow> apply_fields rest body entry updated
      | Inr True \<Rightarrow>
          (case and_then (py_subscript body field) (\<lambda>v. updater v entry) of
             Inl e \<Rightarrow> (Some e, entry, updated)
           | Inr entry' \<Rightarrow> apply_fields rest body entry' (updated @ [field])))"

text \<open>\<^verbatim>\<open>if "status" in body and body["status"] not in VALID_STATUSES: raise
  HTTPException(422)\<close>\<close>

definition check_status :: "json \<Rightarrow> exn + unit" where
  "check_status body =
     and_then (py_in ''status'' body) (\<lambda>has.
       if \<not> has then Inr ()
       else and_then (py_subscript body ''status'') (\<lambda>v.
              and_then (py_in_strset v VALID_STATUSES) (\<lambda>valid.
                if \<not> valid then Inl (HTTPException 422) else Inr ())))"

text \<open>\<^verbatim>\<open>PATCH /api/flights/{code}\<close>\<close>

definition update_flight :: "dict \<Rightarrow> string \<Rightarrow> json \<Rightarrow> (exn + json) \<times> dict" where
  "update_flight user_data code0 body =
     (let code = upper code0; entry = lookup user_data code
      in case found entry of
           Inl e \<Rightarrow> (Inl e, user_data)
         | Inr _ \<Rightarrow>
             (case check_status body of
                Inl e \<Rightarrow> (Inl e, user_data)
              | Inr _ \<Rightarrow>
                  (case apply_fields field_map body entry [] of
                     (Some e, entry', updated) \<Rightarrow> (Inl e, AList.update code entry' user_data)
                   | (None, entry', updated) \<Rightarrow>
                       (serialize_entry code entry', AList.update code entry' user_data))))"

text \<open>\<^verbatim>\<open>entry[k1][k2]\<close>, where the entry has a dictionary under \<open>k1\<close> and that has the
  key \<open>k2\<close>: what \<^verbatim>\<open>gate.dep\<close>, \<^verbatim>\<open>gate.arr\<close>, \<^verbatim>\<open>server.link\<close> and
  \<^verbatim>\<open>event.link\<close> are in an entry.\<close>

definition nested :: "dict \<Rightarrow> string \<Rightarrow> string \<Rightarrow> json option" where
  "nested e k1 k2 = (case map_of e k1 of Some (JObj g) \<Rightarrow> map_of g k2 | _ \<Rightarrow> None)"

text \<open>
  What the specification asks of a PATCH, as a relation between the body \<open>b\<close>, the entry
  \<open>e\<close> before and the entry \<open>e'\<close> after: every recognized field of the body is applied
  (three at the top of the entry, four one level down), and nothing else of the entry
  changes. Names of the body that are not recognized do not occur in it.
\<close>

definition applied :: "dict \<Rightarrow> dict \<Rightarrow> dict \<Rightarrow> bool" where
  "applied b e e' \<longleftrightarrow>
     (\<forall>f\<in>{''status'', ''alerts'', ''meal_service''}.
        map_of e' f = (case map_of b f of Some v \<Rightarrow> Some v | None \<Rightarrow> map_of e f))
     \<and> nested e' ''gate'' ''dep''
         = (case map_of b ''gate_dep'' of Some v \<Rightarrow> Some v | None \<Rightarrow> nested e ''gate'' ''dep'')
     \<and> nested e' ''gate'' ''arr''
         = (case map_of b ''gate_arr'' of Some v \<Rightarrow> Some v | None \<Rightarrow> nested e ''gate'' ''arr'')
     \<and> nested e' ''server'' ''link''
         = (case map_of b ''server_link'' of Some v \<Rightarrow> Some v | None \<Rightarrow> nested e ''server'' ''link'')
     \<and> nested e' ''event'' ''link''
         = (case map_of b ''event_link'' of Some v \<Rightarrow> Some v | None \<Rightarrow> nested e ''event'' ''link'')
     \<and> (\<forall>k. k \<notin> {''status'', ''alerts'', ''meal_service'', ''gate'', ''server'', ''event''} \<longrightarrow>
          map_of e' k = map_of e k)
     \<and> (\<forall>k. k \<notin> {''dep'', ''arr''} \<longrightarrow> nested e' ''gate'' k = nested e ''gate'' k)
     \<and> (\<forall>k. k \<noteq> ''link'' \<longrightarrow> nested e' ''server'' k = nested e ''server'' k)
     \<and> (\<forall>k. k \<noteq> ''link'' \<longrightarrow> nested e' ''event'' k = nested e ''event'' k)"

text \<open>An entry whose \<^verbatim>\<open>gate\<close>, \<^verbatim>\<open>server\<close> and \<^verbatim>\<open>event\<close>, where it has them, are
  dictionaries, as every entry the program writes.\<close>

definition nested_ok :: "dict \<Rightarrow> bool" where
  "nested_ok e \<longleftrightarrow>
     is_obj (get_or e ''gate'' (JObj [])) \<and> is_obj (get_or e ''server'' (JObj []))
     \<and> is_obj (get_or e ''event'' (JObj []))"

subsection \<open>POST\<close>

definition required :: "string list" where
  "required = [''flight_number'', ''dep_city'', ''arr_city'', ''dep_code'', ''arr_code'',
               ''dep_airport'', ''arr_airport'', ''dep_time'', ''arr_time'', ''dep_date'',
               ''duration'', ''terminal'', ''aircraft'']"

text \<open>\<^verbatim>\<open>[f for f in required if not body.get(f)]\<close>\<close>

fun missing_of :: "json \<Rightarrow> string list \<Rightarrow> exn + string list" where
  "missing_of body [] = Inr []"
| "missing_of body (f # fs) =
     and_then (py_get body f JNull) (\<lambda>v.
       and_then (missing_of body fs) (\<lambda>ms. Inr (if \<not> py_truthy v then f # ms else ms)))"

text \<open>\<^verbatim>\<open>v.strip()\<close> and \<^verbatim>\<open>v.strip().upper()\<close>: only text has the methods.\<close>

definition py_strip :: "json \<Rightarrow> exn + json" where
  "py_strip v = (case v of JStr s \<Rightarrow> Inr (JStr (strip s)) | _ \<Rightarrow> Inl AttributeError)"

definition py_strip_upper :: "json \<Rightarrow> exn + json" where
  "py_strip_upper v = (case v of JStr s \<Rightarrow> Inr (JStr (upper (strip s))) | _ \<Rightarrow> Inl AttributeError)"

text \<open>The text fields of the new entry, in the order of the dictionary display; the flag
  says whether the value is also put in upper case.\<close>

fun text_fields :: "json \<Rightarrow> (string \<times> bool) list \<Rightarrow> exn + dict" where
  "text_fields body [] = Inr []"
| "text_fields body ((f, up) # fs) =
     and_then (py_subscript body f) (\<lambda>v.
       and_then (if up then py_strip_upper v else py_strip v) (\<lambda>v'.
         and_then (text_fields body fs) (\<lambda>rest. Inr ((f, v') # rest))))"

text \<open>\<^verbatim>\<open>a or b\<close>\<close>

definition py_or :: "json \<Rightarrow> json \<Rightarrow> json" where
  "py_or a b = (if py_truthy a then a else b)"

text \<open>The entry \<^verbatim>\<open>create_flight\<close> builds from the body once the code is drawn.\<close>

definition new_entry :: "json \<Rightarrow> string \<Rightarrow> string \<Rightarrow> exn + json" where
  "new_entry body code now =
     and_then (py_subscript body ''dep_date'') (\<lambda>dep_date_raw.
       let dep_date_stored =
             (case dep_date_raw of
                JStr s \<Rightarrow> (case strptime_Ymd s of
                             Some dt \<Rightarrow> JStr (strftime_dmY dt)
                           | None \<Rightarrow> dep_date_raw)
              | _ \<Rightarrow> dep_date_raw)
       in
       and_then (text_fields body
         [(''flight_number'', False), (''dep_city'', False), (''arr_city'', False),
          (''dep_code'', True), (''arr_code'', True), (''dep_airport'', False),
          (''arr_airport'', False), (''dep_time'', False), (''arr_time'', False)])
         (\<lambda>fields1.
       and_then (text_fields body
         [(''duration'', False), (''terminal'', False), (''aircraft'', True)])
         (\<lambda>fields2.
       and_then (and_then (py_get body ''host_user_id'' (JStr [])) py_strip)
         (\<lambda>host_user_id.
       and_then (py_get body ''meal_service'' (JStr ''N/A'')) (\<lambda>meal_service.
       and_then (py_get body ''status'' (JStr ''N/A'')) (\<lambda>status.
       and_then (py_get body ''event_link'' (JStr ''N/A'')) (\<lambda>event_link.
       Inr (JObj
         ([(''code'', JStr code)] @ fields1 @ [(''dep_date'', dep_date_stored)]
          @ fields2
          @ [(''host_user_id'', host_user_id),
             (''gate'', JObj [(''dep'', JStr ''N/A''), (''arr'', JStr ''N/A'')]),
             (''meal_service'', meal_service),
             (''status'', status),
             (''alerts'', JStr ''N/A''),
             (''server'', JObj [(''link'', JStr ''N/A'')]),
             (''event'', JObj [(''link'', py_or event_link (JStr ''N/A''))]),
             (''public_message_id'', JNull),
             (''admin_message_id'', JNull),
             (''created_at'', JStr (now @ ''Z''))])))))))))"

text \<open>
  \<^verbatim>\<open>POST /api/flights\<close>. \<open>now\<close> is the text of \<^verbatim>\<open>datetime.utcnow().isoformat()\<close>.
  The result is \<open>None\<close> when the loop that draws the code never ends.
\<close>

definition create_flight ::
  "dict \<Rightarrow> json \<Rightarrow> rng \<Rightarrow> string \<Rightarrow> ((exn + json) \<times> dict) option" where
  "create_flight user_data body rng now =
     (case missing_of body required of
        Inl e \<Rightarrow> Some (Inl e, user_data)
      | Inr missing \<Rightarrow>
          if missing \<noteq> [] then Some (Inl (HTTPException 422), user_data)
          else
            (case new_code user_data rng of
               None \<Rightarrow> None
             | Some (code, rng') \<Rightarrow>
                 (case new_entry body code now of
                    Inl e \<Rightarrow> Some (Inl e, user_data)
                  | Inr entry \<Rightarrow>
                      Some (serialize_entry code entry, AList.update code entry user_data))))"

section \<open>The submission wizard\<close>

text \<open>
  \<^verbatim>\<open>ConfirmView\<close> keeps the submitter's id and whether it closes the last step (its two
  modal classes only say which form opens next). What \<^verbatim>\<open>yes_button\<close> tells the user is
  the \<open>outcome\<close>.
\<close>

record confirm_view =
  user_id :: int
  is_last_step :: bool

datatype outcome = NotForYou | NoSession | Saved string | InternalError | NextModal

text \<open>A dictionary display \<^verbatim>\<open>{k1: v1, ..., **d, ...}\<close>: the items are set one after the
  other, so a repeated key keeps its first place and takes its last value.\<close>

definition dict_display :: "(string \<times> json) list \<Rightarrow> dict" where
  "dict_display items = foldl (\<lambda>d (k, v). AList.update k v d) [] items"

text \<open>
  \<^verbatim>\<open>ConfirmView.yes_button\<close>, with \<open>presser\<close> the id of the user who pressed.
  \<^verbatim>\<open>**entry\<close> needs a dictionary; the TypeError of any other value is caught by the
  handler and reported, with the store as it was.
\<close>

definition yes_button ::
  "confirm_view \<Rightarrow> int \<Rightarrow> dict \<Rightarrow> rng \<Rightarrow> string \<Rightarrow> (outcome \<times> dict) option" where
  "yes_button view presser user_data rng now =
     (if presser \<noteq> user_id view then Some (NotForYou, user_data)
      else if is_last_step view then
        (case lookup user_data (str_int (user_id view)) of
           JNull \<Rightarrow> Some (NoSession, user_data)
         | entry \<Rightarrow>
             (case new_code user_data rng of
                None \<Rightarrow> None
              | Some (code, rng') \<Rightarrow>
                  (case entry of
                     JObj e \<Rightarrow>
                       (let flight_entry = JObj (dict_display
                              ([(''code'', JStr code), (''host_user_id'', JInt (user_id view))]
                               @ e
                               @ [(''gate'', JObj [(''dep'', JStr ''N/A''), (''arr'', JStr ''N/A'')]),
                                  (''meal_service'', JStr ''N/A''),
                                  (''status'', JStr ''N/A''),
                                  (''alerts'', JStr ''N/A''),
                                  (''server'', JObj [(''link'', JStr ''N/A'')]),
                                  (''event'', JObj [(''link'', JStr ''N/A'')]),
                                  (''public_message_id'', JNull),
                                  (''admin_message_id'', JNull),
                                  (''created_at'', JStr (now @ ''Z''))]))
                        in Some (Saved code,
                             AList.update (str_int (user_id view) @ ''_pending'') entry
                               (AList.update code flight_entry user_data)))
                   | _ \<Rightarrow> Some (InternalError, user_data))))
      else Some (NextModal, user_data))"

section \<open>Session tokens\<close>

text \<open>
  \<^verbatim>\<open>src/auth.py\<close> keeps the session in a cookie: the payload as JSON, in base64, a dot,
  and the HMAC-SHA256 of the base64 text under \<^verbatim>\<open>SECRET_change-me-please-use-a-long-random-string\<close>. The three libraries it
  calls are parameters of the model, one record of functions: \<^verbatim>\<open>json.dumps\<close> with the
  separators of the source, \<^verbatim>\<open>json.loads\<close>, \<^verbatim>\<open>base64.urlsafe_b64encode\<close> and
  \<^verbatim>\<open>urlsafe_b64decode\<close>, and \<^verbatim>\<open>hmac.new(key, msg, sha256).hexdigest()\<close>. Bytes are
  text here. A function of the library that can raise has an \<open>option\<close> result, \<open>None\<close>
  for the exception.
\<close>

record lib =
  json_dumps :: "json \<Rightarrow> string"
  json_loads :: "string \<Rightarrow> json option"
  b64encode :: "string \<Rightarrow> string"
  b64decode :: "string \<Rightarrow> string option"
  hmac_hex :: "string \<Rightarrow> string \<Rightarrow> string"

text \<open>\<^verbatim>\<open>_sign(payload)\<close>\<close>

definition sign :: "lib \<Rightarrow> string \<Rightarrow> json \<Rightarrow> string" where
  "sign L secret_key payload =
     (let raw = json_dumps L payload;
          b64 = b64encode L raw;
          sig = hmac_hex L secret_key b64
      in b64 @ ''.'' @ sig)"

text \<open>\<^verbatim>\<open>b64, sig = token.rsplit(".", 1)\<close>: the text before and after the last dot, and a
  ValueError when the token has no dot.\<close>

definition rsplit_dot :: "string \<Rightarrow> (string \<times> string) option" where
  "rsplit_dot token =
     (if CHR ''.'' \<notin> set token then None
      else Some (rev (tl (dropWhile (\<lambda>c. c \<noteq> CHR ''.'') (rev token))),
                 rev (takeWhile (\<lambda>c. c \<noteq> CHR ''.'') (rev token))))"

text \<open>\<^verbatim>\<open>hmac.compare_digest(a, b)\<close> on two texts: equality, and a TypeError when one of
  them has a character that is not ASCII.\<close>

definition is_ascii :: "string \<Rightarrow> bool" where
  "is_ascii s = list_all (\<lambda>c. (of_char c :: nat) < 128) s"

definition compare_digest :: "string \<Rightarrow> string \<Rightarrow> bool option" where
  "compare_digest a b = (if is_ascii a \<and> is_ascii b then Some (a = b) else None)"

text \<open>
  The end of \<^verbatim>\<open>_verify\<close>, once the payload is decoded:
  \<^verbatim>\<open>if payload.get("exp", 0) < time.time(): return None\<close> and then
  \<^verbatim>\<open>return payload\<close>. Only a dictionary has \<^verbatim>\<open>get\<close>, and only a number (or a
  boolean) can be compared with the time; the exception of every other case is caught
  and gives \<^verbatim>\<open>None\<close>. The time is a real number.
\<close>

definition verify_payload :: "json \<Rightarrow> real \<Rightarrow> json option" where
  "verify_payload payload now =
     (case payload of
        JObj d \<Rightarrow>
          (case num_of (get_or d ''exp'' (JInt 0)) of
             None \<Rightarrow> None
           | Some e \<Rightarrow> if real_of_int e < now then None else Some payload)
      | _ \<Rightarrow> None)"

text \<open>\<^verbatim>\<open>_verify(token)\<close>: every exception of the body is caught and gives \<^verbatim>\<open>None\<close>.\<close>

definition verify :: "lib \<Rightarrow> string \<Rightarrow> string \<Rightarrow> real \<Rightarrow> json option" where
  "verify L secret_key token now =
     (case rsplit_dot token of
        None \<Rightarrow> None
      | Some (b64, sig) \<Rightarrow>
          (case compare_digest sig (hmac_hex L secret_key b64) of
             None \<Rightarrow> None
           | Some same \<Rightarrow>
               if \<not> same then None
               else (case b64decode L b64 of
                       None \<Rightarrow> None
                     | Some raw \<Rightarrow>
                         (case json_loads L raw of
                            None \<Rightarrow> None
                          | Some payload \<Rightarrow> verify_payload payload now))))"

text \<open>What \<^verbatim>\<open>hexdigest\<close> returns is text of the digits \<^verbatim>\<open>0\<close> to \<^verbatim>\<open>9\<close> and
  \<^verbatim>\<open>a\<close> to \<^verbatim>\<open>f\<close>.\<close>

definition is_hex :: "string \<Rightarrow> bool" where
  "is_hex s = list_all (\<lambda>c. c \<in> set ''0123456789abcdef'') s"

text \<open>
  For the examples, the libraries at the arguments the examples use, with the values
  the libraries of Python give there: the payload \<^verbatim>\<open>{"user_id": "611", "exp": 1000}\<close>,
  its JSON text, the base64 of that text, and the digest of the base64 text under the
  key the source has as its default. At every other argument the decoders fail and the
  digest is empty.
\<close>

definition example_payload :: json where
  "example_payload = JObj [(''user_id'', JStr ''611''), (''exp'', JInt 1000)]"

definition example_raw :: string where
  "example_raw = ''{'' @ [CHR 0x22] @ ''user_id'' @ [CHR 0x22] @ '':'' @ [CHR 0x22] @ ''611''
     @ [CHR 0x22] @ '','' @ [CHR 0x22] @ ''exp'' @ [CHR 0x22] @ '':1000}''"

definition example_b64 :: string where
  "example_b64 = ''eyJ1c2VyX2lkIjoiNjExIiwiZXhwIjoxMDAwfQ==''"

definition example_key :: string where
  "example_key = ''change-me-please-use-a-long-random-string''"

definition example_sig :: string where
  "example_sig = ''836cc0fd6c5114206de54b435594d954cd068dff24dd851e4464f6d1bf28178b''"

definition example_lib :: lib where
  "example_lib =
     \<lparr>json_dumps = (\<lambda>p. if p = example_payload then example_raw else []),
      json_loads = (\<lambda>s. if s = example_raw then Some example_payload else None),
      b64encode = (\<lambda>s. if s = example_raw then example_b64 else []),
      b64decode = (\<lambda>s. if s = example_b64 then Some example_raw else None),
      hmac_hex = (\<lambda>k m. if k = example_key \<and> m = example_b64 then example_sig else [])\<rparr>"

section \<open>Properties\<close>

subsection \<open>Evaluating text and dates\<close>

lemma char_eq_nat: "c = c' \<longleftrightarrow> (of_char c :: nat) = of_char c'"
  by simp

lemma of_char_digit_char: "k < 10 \<Longrightarrow> (of_char (digit_char k) :: nat) = 48 + k"
  by (simp add: digit_char_def)

lemma digit_char_lits:
  "digit_char 0 = CHR ''0''" "digit_char 1 = CHR ''1''" "digit_char 2 = CHR ''2''"
  "digit_char 3 = CHR ''3''" "digit_char 4 = CHR ''4''" "digit_char 5 = CHR ''5''"
  "digit_char 6 = CHR ''6''" "digit_char 7 = CHR ''7''" "digit_char 8 = CHR ''8''"
  "digit_char 9 = CHR ''9''" "digit_char (Suc 0) = CHR ''1''"
  by (simp_all add: char_eq_nat of_char_digit_char)

lemmas date_eval = strptime_dmY_def strptime_Ymd_def first_match_def is_digit_def is_digit19_def
  digit_val_def valid_date_def days_in_month_def is_leap_def

lemmas text_eval = upper_def upper_char_def strip_def is_space_def str_int_def digit_char_lits
  strftime_dmY_def strftime_Ymd_def pad2_def strftime_Y_def month_names_def

subsection \<open>Drawing codes\<close>

lemma generate_code_eq:
  "generate_code n rng =
     (map (\<lambda>i. alphabet ! (rng i mod length alphabet)) [0..<n], \<lambda>i. rng (i + n))"
proof (induction n arbitrary: rng)
  case 0
  show ?case by simp
next
  case (Suc n)
  have "map (\<lambda>i. alphabet ! (rng i mod length alphabet)) [0..<Suc n] =
        alphabet ! (rng 0 mod length alphabet)
        # map (\<lambda>i. alphabet ! (rng (Suc i) mod length alphabet)) [0..<n]"
    by (simp add: upt_rec [of 0 "Suc n"] map_Suc_upt [symmetric] del: upt_Suc)
  then show ?case by (simp add: Suc random_choice_def del: upt_Suc)
qed

lemma generate_ref_code_eq: "generate_ref_code n rng = generate_code n rng"
  by (induction n arbitrary: rng) simp_all

lemma length_alphabet: "length alphabet = 36"
  by (simp add: alphabet_def)

lemma length_generate_code: "length (fst (generate_code n rng)) = n"
  by (simp add: generate_code_eq)

lemma set_generate_code: "set (fst (generate_code n rng)) \<subseteq> set alphabet"
  by (auto simp: generate_code_eq length_alphabet)

lemma alphabet_chars:
  "c \<in> set alphabet \<Longrightarrow>
     (CHR ''A'' \<le> c \<and> c \<le> CHR ''Z'') \<or> (CHR ''0'' \<le> c \<and> c \<le> CHR ''9'')"
  by (auto simp: alphabet_def)

lemma resample_sound:
  assumes "resample user_data code rng = Some y"
  shows "fst y \<notin> set (map fst user_data)
     \<and> (length code = 6 \<longrightarrow> length (fst y) = 6)
     \<and> (set code \<subseteq> set alphabet \<longrightarrow> set (fst y) \<subseteq> set alphabet)"
proof (rule resample.raw_induct
    [where P = "\<lambda>u c r y. fst y \<notin> set (map fst u)
       \<and> (length c = 6 \<longrightarrow> length (fst y) = 6)
       \<and> (set c \<subseteq> set alphabet \<longrightarrow> set (fst y) \<subseteq> set alphabet)", OF _ assms])
  fix f :: "dict \<Rightarrow> string \<Rightarrow> rng \<Rightarrow> (string \<times> rng) option"
    and u :: dict and c :: string and r :: rng and z :: "string \<times> rng"
  assume IH: "\<And>u c r y. f u c r = Some y \<Longrightarrow>
      fst y \<notin> set (map fst u)
      \<and> (length c = 6 \<longrightarrow> length (fst y) = 6)
      \<and> (set c \<subseteq> set alphabet \<longrightarrow> set (fst y) \<subseteq> set alphabet)"
    and step: "(if c \<in> set (map fst u)
         then case generate_code 6 r of (code', rng') \<Rightarrow> f u code' rng'
         else Some (c, r)) = Some z"
  show "fst z \<notin> set (map fst u)
      \<and> (length c = 6 \<longrightarrow> length (fst z) = 6)
      \<and> (set c \<subseteq> set alphabet \<longrightarrow> set (fst z) \<subseteq> set alphabet)"
  proof (cases "c \<in> set (map fst u)")
    case True
    with step have "f u (fst (generate_code 6 r)) (snd (generate_code 6 r)) = Some z"
      by (simp add: case_prod_beta)
    from IH [OF this] show ?thesis
      using length_generate_code [of 6 r] set_generate_code [of 6 r] by simp
  next
    case False
    with step show ?thesis by (auto simp: image_iff)
  qed
qed

lemma resample_returns:
  "fst (generate_code 6 (\<lambda>i. rng (i + 6 * k))) \<notin> set (map fst user_data) \<Longrightarrow>
     \<exists>y. resample user_data (fst (generate_code 6 rng)) (snd (generate_code 6 rng)) = Some y"
proof (induction k arbitrary: rng)
  case 0
  then show ?case by (subst resample.simps) simp
next
  case (Suc k)
  show ?case
  proof (cases "fst (generate_code 6 rng) \<in> set (map fst user_data)")
    case False
    then show ?thesis by (subst resample.simps) simp
  next
    case True
    have "(\<lambda>i. snd (generate_code 6 rng) (i + 6 * k)) = (\<lambda>i. rng (i + 6 * Suc k))"
      by (simp add: generate_code_eq add.commute add.left_commute)
    with Suc.prems have "fst (generate_code 6 (\<lambda>i. snd (generate_code 6 rng) (i + 6 * k)))
        \<notin> set (map fst user_data)" by simp
    from Suc.IH [OF this] True show ?thesis
      by (subst resample.simps) (simp add: case_prod_beta)
  qed
qed

lemma new_code_sound:
  "new_code user_data rng = Some (code, rng') \<Longrightarrow>
     length code = 6 \<and> set code \<subseteq> set alphabet \<and> code \<notin> set (map fst user_data)"
  unfolding new_code_def
  using resample_sound [of user_data "fst (generate_code 6 rng)" "snd (generate_code 6 rng)" "(code, rng')"]
    length_generate_code [of 6 rng] set_generate_code [of 6 rng]
  by (simp add: case_prod_beta)

lemma new_code_returns:
  "fst (generate_code 6 (\<lambda>i. rng (i + 6 * k))) \<notin> set (map fst user_data) \<Longrightarrow>
     \<exists>code rng'. new_code user_data rng = Some (code, rng')"
  unfolding new_code_def using resample_returns [of rng k user_data]
  by (simp add: case_prod_beta)

subsection \<open>Dictionaries\<close>

lemma update_absent: "k \<notin> fst ` set d \<Longrightarrow> AList.update k v d = d @ [(k, v)]"
  by (induction d) auto

lemma filter_update_out:
  "(\<And>v'. \<not> P (k, v')) \<Longrightarrow> filter P (AList.update k v d) = filter P d"
  by (induction d) auto

lemma map_of_foldl_update:
  "map_of (foldl (\<lambda>d (k, v). AList.update k v d) d items) = map_of d ++ map_of (rev items)"
proof (induction items arbitrary: d)
  case Nil
  show ?case by simp
next
  case (Cons x xs)
  obtain k v where x: "x = (k, v)" by (cases x)
  show ?case
    by (simp add: x Cons update_conv' map_add_upd_left [symmetric] map_add_def fun_eq_iff
        split: option.splits)
qed

lemma map_of_dict_display: "map_of (dict_display items) = map_of (rev items)"
  by (simp add: dict_display_def map_of_foldl_update)

lemma keys_dict_display: "fst ` set (dict_display items) = fst ` set items"
proof -
  have "dom (map_of (dict_display items)) = dom (map_of (rev items))"
    by (simp add: map_of_dict_display)
  then show ?thesis by (simp add: dom_map_of_conv_image_fst)
qed

lemma is_real_pending: "\<not> is_real (u @ ''_pending'') v"
  by (cases v) (auto simp: is_real_def endswith_def)

lemma endswith_iff: "endswith s suf \<longleftrightarrow> (\<exists>p. s = p @ suf)"
proof
  assume "endswith s suf"
  then have "s = take (length s - length suf) s @ suf"
    by (metis append_take_drop_id endswith_def)
  then show "\<exists>p. s = p @ suf" ..
next
  assume "\<exists>p. s = p @ suf"
  then show "endswith s suf" by (auto simp: endswith_def)
qed

lemma map_of_rev_distinct: "distinct (map fst xs) \<Longrightarrow> map_of (rev xs) = map_of xs"
  by (rule map_of_inject_set [THEN iffD2]) (simp_all add: rev_map [symmetric])

subsection \<open>The store after a handler\<close>

lemma resample_fresh:
  "code \<notin> fst ` set user_data \<Longrightarrow> resample user_data code rng = Some (code, rng)"
  by (subst resample.simps) simp

lemma is_real_new_code:
  "length code = 6 \<Longrightarrow> ''flight_number'' \<in> fst ` set fe \<Longrightarrow> is_real code (JObj fe)"
  by (auto simp: is_real_def endswith_def)

lemma create_flight_store:
  assumes "create_flight user_data body rng now = Some (r, store')" and "store' \<noteq> user_data"
  shows "\<exists>code rng' entry. new_code user_data rng = Some (code, rng')
           \<and> store' = AList.update code entry user_data"
proof (cases "missing_of body required")
  case (Inl e)
  with assms show ?thesis by (simp add: create_flight_def)
next
  case (Inr missing)
  show ?thesis
  proof (cases "new_code user_data rng")
    case None
    with assms Inr show ?thesis by (simp add: create_flight_def split: if_splits)
  next
    case (Some p)
    obtain code rng' where p: "p = (code, rng')" by (cases p)
    show ?thesis
    proof (cases "new_entry body code now")
      case (Inl e)
      with assms Inr Some p show ?thesis by (simp add: create_flight_def split: if_splits)
    next
      case (Inr entry)
      with assms \<open>missing_of body required = Inr missing\<close> Some p show ?thesis
        by (simp add: create_flight_def split: if_splits) blast
    qed
  qed
qed

lemma yes_button_saved:
  assumes "yes_button view presser user_data rng now = Some (Saved code, store')"
  shows "\<exists>rng' v fe. new_code user_data rng = Some (code, rng')
           \<and> store' = AList.update (str_int (user_id view) @ ''_pending'') v
               (AList.update code fe user_data)"
proof (cases "new_code user_data rng")
  case None
  with assms show ?thesis
    by (simp add: yes_button_def split: if_splits json.splits)
next
  case (Some p)
  obtain c rng' where p: "p = (c, rng')" by (cases p)
  with assms Some show ?thesis
    by (simp add: yes_button_def Let_def split: if_splits json.splits) blast+
qed

subsection \<open>Serializing and finding an entry\<close>

lemma and_then_simps [simp]:
  "and_then (Inl e) f = Inl e" "and_then (Inr x) f = f x"
  by (simp_all add: and_then_def)

lemma found_obj:
  "found (JObj e) = (if ''flight_number'' \<in> fst ` set e then Inr () else Inl (HTTPException 404))"
  by (auto simp: found_def)

lemma found_falsy: "\<not> py_truthy v \<Longrightarrow> found v = Inl (HTTPException 404)"
  by (simp add: found_def)


lemma serialize_entry_ok:
  assumes "is_obj (get_or e ''gate'' (JObj []))" "is_obj (get_or e ''server'' (JObj []))"
    "is_obj (get_or e ''event'' (JObj []))"
  shows "\<exists>resp. serialize_entry c (JObj e) = Inr (JObj resp)"
proof -
  from assms obtain g s v where "get_or e ''gate'' (JObj []) = JObj g"
    "get_or e ''server'' (JObj []) = JObj s" "get_or e ''event'' (JObj []) = JObj v"
    by (auto simp: is_obj_def split: json.splits)
  then show ?thesis by (simp add: serialize_entry_def Let_def)
qed







subsection \<open>The steps of a PATCH\<close>

lemma check_status_obj:
  "check_status (JObj b) =
     (case map_of b ''status'' of
        None \<Rightarrow> Inr ()
      | Some v \<Rightarrow> (case v of
                    JObj x \<Rightarrow> Inl TypeError
                  | JStr s \<Rightarrow> if s \<in> set VALID_STATUSES then Inr () else Inl (HTTPException 422)
                  | _ \<Rightarrow> Inl (HTTPException 422)))"
proof (cases "map_of b ''status''")
  case None
  then have "''status'' \<notin> fst ` set b" by (simp add: map_of_eq_None_iff)
  with None show ?thesis by (simp add: check_status_def)
next
  case (Some v)
  then have "''status'' \<in> fst ` set b" by (metis map_of_eq_None_iff option.distinct(1))
  with Some show ?thesis by (cases v) (simp_all add: check_status_def)
qed

lemma apply_fields_cons_obj:
  "apply_fields ((f, upd) # rest) (JObj b) entry updated =
     (case map_of b f of
        None \<Rightarrow> apply_fields rest (JObj b) entry updated
      | Some v \<Rightarrow>
          (case upd v entry of
             Inl x \<Rightarrow> (Some x, entry, updated)
           | Inr entry' \<Rightarrow> apply_fields rest (JObj b) entry' (updated @ [f])))"
proof (cases "map_of b f")
  case None
  then have "f \<notin> fst ` set b" by (simp add: map_of_eq_None_iff)
  with None show ?thesis by simp
next
  case (Some v)
  then have "f \<in> fst ` set b" by (metis map_of_eq_None_iff option.distinct(1))
  with Some show ?thesis by simp
qed

lemma set_field_step:
  "\<exists>e1 u1. apply_fields ((f, set_field k) # rest) (JObj b) (JObj ent) us
       = apply_fields rest (JObj b) (JObj e1) u1
     \<and> map_of e1 = (case map_of b f of None \<Rightarrow> map_of ent | Some v \<Rightarrow> (map_of ent)(k \<mapsto> v))"
  by (subst apply_fields_cons_obj, cases "map_of b f")
    (auto simp: set_field_def update_conv' simp del: apply_fields.simps)

lemma set_nested_step:
  assumes "get_or ent k1 (JObj []) = JObj g"
  shows "\<exists>e1 u1. apply_fields ((f, set_nested k1 k2) # rest) (JObj b) (JObj ent) us
       = apply_fields rest (JObj b) (JObj e1) u1
     \<and> map_of e1 = (case map_of b f of None \<Rightarrow> map_of ent
                    | Some v \<Rightarrow> (map_of ent)(k1 \<mapsto> JObj (AList.update k2 v g)))"
  using assms
  by (subst apply_fields_cons_obj, cases "map_of b f")
    (auto simp: set_nested_def update_conv' simp del: apply_fields.simps)

lemma update_flight_bad_status:
  assumes "map_of user_data (upper code0) = Some (JObj e)" and "''flight_number'' \<in> fst ` set e"
    and "map_of b ''status'' = Some v" and "v \<notin> JStr ` set VALID_STATUSES"
  shows "update_flight user_data code0 (JObj b)
     = (if is_obj v then Inl TypeError else Inl (HTTPException 422), user_data)"
  using assms
  by (cases v)
    (auto simp: update_flight_def Let_def lookup_def get_or_def found_obj check_status_obj
      is_obj_def)

lemma apply_fields_field_map:
  assumes gate: "is_obj (get_or e ''gate'' (JObj []))"
    and server: "is_obj (get_or e ''server'' (JObj []))"
    and event: "is_obj (get_or e ''event'' (JObj []))"
  shows "\<exists>e' u. apply_fields field_map (JObj b) (JObj e) [] = (None, JObj e', u)
     \<and> applied b e e' \<and> nested_ok e'"
proof -
  from set_field_step [where f = "''status''" and k = "''status''" and b = b and ent = e
      and us = "[]" and rest = "[(''alerts'', set_field ''alerts''),
        (''meal_service'', set_field ''meal_service''),
        (''gate_dep'', set_nested ''gate'' ''dep''),
        (''gate_arr'', set_nested ''gate'' ''arr''),
        (''server_link'', set_nested ''server'' ''link''),
        (''event_link'', set_nested ''event'' ''link'')]"]
  obtain e1 u1 where a1: "apply_fields
       [(''status'', set_field ''status''),
        (''alerts'', set_field ''alerts''),
        (''meal_service'', set_field ''meal_service''),
        (''gate_dep'', set_nested ''gate'' ''dep''),
        (''gate_arr'', set_nested ''gate'' ''arr''),
        (''server_link'', set_nested ''server'' ''link''),
        (''event_link'', set_nested ''event'' ''link'')] (JObj b) (JObj e) []
      = apply_fields
       [(''alerts'', set_field ''alerts''),
        (''meal_service'', set_field ''meal_service''),
        (''gate_dep'', set_nested ''gate'' ''dep''),
        (''gate_arr'', set_nested ''gate'' ''arr''),
        (''server_link'', set_nested ''server'' ''link''),
        (''event_link'', set_nested ''event'' ''link'')] (JObj b) (JObj e1) u1"
    and m1: "map_of e1 = (case map_of b ''status'' of None \<Rightarrow> map_of e
                | Some v \<Rightarrow> (map_of e)(''status'' \<mapsto> v))"
    by blast
  from set_field_step [where f = "''alerts''" and k = "''alerts''" and b = b and ent = e1
      and us = "u1" and rest = "[(''meal_service'', set_field ''meal_service''),
        (''gate_dep'', set_nested ''gate'' ''dep''),
        (''gate_arr'', set_nested ''gate'' ''arr''),
        (''server_link'', set_nested ''server'' ''link''),
        (''event_link'', set_nested ''event'' ''link'')]"]
  obtain e2 u2 where a2: "apply_fields
       [(''alerts'', set_field ''alerts''),
        (''meal_service'', set_field ''meal_service''),
        (''gate_dep'', set_nested ''gate'' ''dep''),
        (''gate_arr'', set_nested ''gate'' ''arr''),
        (''server_link'', set_nested ''server'' ''link''),
        (''event_link'', set_nested ''event'' ''link'')] (JObj b) (JObj e1) u1
      = apply_fields
       [(''meal_service'', set_field ''meal_service''),
        (''gate_dep'', set_nested ''gate'' ''dep''),
        (''gate_arr'', set_nested ''gate'' ''arr''),
        (''server_link'', set_nested ''server'' ''link''),
        (''event_link'', set_nested ''event'' ''link'')] (JObj b) (JObj e2) u2"
    and m2: "map_of e2 = (case map_of b ''alerts'' of None \<Rightarrow> map_of e1
                | Some v \<Rightarrow> (map_of e1)(''alerts'' \<mapsto> v))"
    by blast
  from set_field_step [where f = "''meal_service''" and k = "''meal_service''" and b = b and ent = e2
      and us = "u2" and rest = "[(''gate_dep'', set_nested ''gate'' ''dep''),
        (''gate_arr'', set_nested ''gate'' ''arr''),
        (''server_link'', set_nested ''server'' ''link''),
        (''event_link'', set_nested ''event'' ''link'')]"]
  obtain e3 u3 where a3: "apply_fields
       [(''meal_service'', set_field ''meal_service''),
        (''gate_dep'', set_nested ''gate'' ''dep''),
        (''gate_arr'', set_nested ''gate'' ''arr''),
        (''server_link'', set_nested ''server'' ''link''),
        (''event_link'', set_nested ''event'' ''link'')] (JObj b) (JObj e2) u2
      = apply_fields
       [(''gate_dep'', set_nested ''gate'' ''dep''),
        (''gate_arr'', set_nested ''gate'' ''arr''),
        (''server_link'', set_nested ''server'' ''link''),
        (''event_link'', set_nested ''event'' ''link'')] (JObj b) (JObj e3) u3"
    and m3: "map_of e3 = (case map_of b ''meal_service'' of None \<Rightarrow> map_of e2
                | Some v \<Rightarrow> (map_of e2)(''meal_service'' \<mapsto> v))"
    by blast
  have "is_obj (get_or e3 ''gate'' (JObj []))"
    using gate server event m1 m2 m3
    by (auto simp: get_or_def is_obj_def split: option.splits)
  then obtain g4 where g4: "get_or e3 ''gate'' (JObj []) = JObj g4"
    by (auto simp: is_obj_def split: json.splits)
  from set_nested_step [OF g4, where f = "''gate_dep''" and ?k2.0 = "''dep''" and b = b
      and us = "u3" and rest = "[(''gate_arr'', set_nested ''gate'' ''arr''),
        (''server_link'', set_nested ''server'' ''link''),
        (''event_link'', set_nested ''event'' ''link'')]"]
  obtain e4 u4 where a4: "apply_fields
       [(''gate_dep'', set_nested ''gate'' ''dep''),
        (''gate_arr'', set_nested ''gate'' ''arr''),
        (''server_link'', set_nested ''server'' ''link''),
        (''event_link'', set_nested ''event'' ''link'')] (JObj b) (JObj e3) u3
      = apply_fields
       [(''gate_arr'', set_nested ''gate'' ''arr''),
        (''server_link'', set_nested ''server'' ''link''),
        (''event_link'', set_nested ''event'' ''link'')] (JObj b) (JObj e4) u4"
    and m4: "map_of e4 = (case map_of b ''gate_dep'' of None \<Rightarrow> map_of e3
                | Some v \<Rightarrow> (map_of e3)(''gate'' \<mapsto> JObj (AList.update ''dep'' v g4)))"
    by blast
  have "is_obj (get_or e4 ''gate'' (JObj []))"
    using gate server event m1 m2 m3 m4
    by (auto simp: get_or_def is_obj_def split: option.splits)
  then obtain g5 where g5: "get_or e4 ''gate'' (JObj []) = JObj g5"
    by (auto simp: is_obj_def split: json.splits)
  from set_nested_step [OF g5, where f = "''gate_arr''" and ?k2.0 = "''arr''" and b = b
      and us = "u4" and rest = "[(''server_link'', set_nested ''server'' ''link''),
        (''event_link'', set_nested ''event'' ''link'')]"]
  obtain e5 u5 where a5: "apply_fields
       [(''gate_arr'', set_nested ''gate'' ''arr''),
        (''server_link'', set_nested ''server'' ''link''),
        (''event_link'', set_nested ''event'' ''link'')] (JObj b) (JObj e4) u4
      = apply_fields
       [(''server_link'', set_nested ''server'' ''link''),
        (''event_link'', set_nested ''event'' ''link'')] (JObj b) (JObj e5) u5"
    and m5: "map_of e5 = (case map_of b ''gate_arr'' of None \<Rightarrow> map_of e4
                | Some v \<Rightarrow> (map_of e4)(''gate'' \<mapsto> JObj (AList.update ''arr'' v g5)))"
    by blast
  have "is_obj (get_or e5 ''server'' (JObj []))"
    using gate server event m1 m2 m3 m4 m5
    by (auto simp: get_or_def is_obj_def split: option.splits)
  then obtain g6 where g6: "get_or e5 ''server'' (JObj []) = JObj g6"
    by (auto simp: is_obj_def split: json.splits)
  from set_nested_step [OF g6, where f = "''server_link''" and ?k2.0 = "''link''" and b = b
      and us = "u5" and rest = "[(''event_link'', set_nested ''event'' ''link'')]"]
  obtain e6 u6 where a6: "apply_fields
       [(''server_link'', set_nested ''server'' ''link''),
        (''event_link'', set_nested ''event'' ''link'')] (JObj b) (JObj e5) u5
      = apply_fields
       [(''event_link'', set_nested ''event'' ''link'')] (JObj b) (JObj e6) u6"
    and m6: "map_of e6 = (case map_of b ''server_link'' of None \<Rightarrow> map_of e5
                | Some v \<Rightarrow> (map_of e5)(''server'' \<mapsto> JObj (AList.update ''link'' v g6)))"
    by blast
  have "is_obj (get_or e6 ''event'' (JObj []))"
    using gate server event m1 m2 m3 m4 m5 m6
    by (auto simp: get_or_def is_obj_def split: option.splits)
  then obtain g7 where g7: "get_or e6 ''event'' (JObj []) = JObj g7"
    by (auto simp: is_obj_def split: json.splits)
  from set_nested_step [OF g7, where f = "''event_link''" and ?k2.0 = "''link''" and b = b
      and us = "u6" and rest = "[]"]
  obtain e7 u7 where a7: "apply_fields
       [(''event_link'', set_nested ''event'' ''link'')] (JObj b) (JObj e6) u6
      = apply_fields
       [] (JObj b) (JObj e7) u7"
    and m7: "map_of e7 = (case map_of b ''event_link'' of None \<Rightarrow> map_of e6
                | Some v \<Rightarrow> (map_of e6)(''event'' \<mapsto> JObj (AList.update ''link'' v g7)))"
    by blast
  have run: "apply_fields field_map (JObj b) (JObj e) [] = (None, JObj e7, u7)"
    unfolding field_map_def a1 a2 a3 a4 a5 a6 a7 by simp
  have f3: "map_of e3 ''gate'' = map_of e ''gate''" "map_of e3 ''server'' = map_of e ''server''"
    "map_of e3 ''event'' = map_of e ''event''"
    by (simp_all add: m1 m2 m3 split: option.splits)
  have top: "\<forall>f\<in>{''status'', ''alerts'', ''meal_service''}.
          map_of e7 f = (case map_of b f of Some v \<Rightarrow> Some v | None \<Rightarrow> map_of e f)"
    by (simp add: m1 m2 m3 m4 m5 m6 m7 split: option.splits)
  have others: "\<forall>k. k \<notin> {''status'', ''alerts'', ''meal_service'', ''gate'', ''server'', ''event''} \<longrightarrow>
          map_of e7 k = map_of e k"
    by (simp add: m1 m2 m3 m4 m5 m6 m7 split: option.splits)
  have g4e: "get_or e ''gate'' (JObj []) = JObj g4"
    using g4 f3 by (simp add: get_or_def)
  have g5e: "g5 = (case map_of b ''gate_dep'' of None \<Rightarrow> g4 | Some v \<Rightarrow> AList.update ''dep'' v g4)"
    using g5 g4 by (simp add: get_or_def m4 split: option.splits)
  have gate7: "map_of e7 ''gate'' =
      (case map_of b ''gate_arr'' of
         Some v \<Rightarrow> Some (JObj (AList.update ''arr'' v g5))
       | None \<Rightarrow> (case map_of b ''gate_dep'' of
                    Some v \<Rightarrow> Some (JObj (AList.update ''dep'' v g4))
                  | None \<Rightarrow> map_of e ''gate''))"
    by (simp add: m7 m6 m5 m4 f3 split: option.splits)
  have gate_dep: "nested e7 ''gate'' ''dep''
         = (case map_of b ''gate_dep'' of Some v \<Rightarrow> Some v | None \<Rightarrow> nested e ''gate'' ''dep'')"
    using g4e by (auto simp: nested_def gate7 g5e get_or_def update_conv' split: option.splits json.splits)
  have gate_arr: "nested e7 ''gate'' ''arr''
         = (case map_of b ''gate_arr'' of Some v \<Rightarrow> Some v | None \<Rightarrow> nested e ''gate'' ''arr'')"
    using g4e by (auto simp: nested_def gate7 g5e get_or_def update_conv' split: option.splits json.splits)
  have gate_rest: "\<forall>k. k \<notin> {''dep'', ''arr''} \<longrightarrow> nested e7 ''gate'' k = nested e ''gate'' k"
    using g4e by (auto simp: nested_def gate7 g5e get_or_def update_conv' split: option.splits json.splits)
  have f5: "map_of e5 ''server'' = map_of e ''server''" "map_of e5 ''event'' = map_of e ''event''"
    by (simp_all add: m5 m4 f3 split: option.splits)
  have g6e: "get_or e ''server'' (JObj []) = JObj g6"
    using g6 f5 by (simp add: get_or_def)
  have server7: "map_of e7 ''server'' =
      (case map_of b ''server_link'' of
         Some v \<Rightarrow> Some (JObj (AList.update ''link'' v g6))
       | None \<Rightarrow> map_of e ''server'')"
    by (simp add: m7 m6 f5 split: option.splits)
  have server_link: "nested e7 ''server'' ''link''
         = (case map_of b ''server_link'' of Some v \<Rightarrow> Some v | None \<Rightarrow> nested e ''server'' ''link'')"
    using g6e by (auto simp: nested_def server7 get_or_def update_conv' split: option.splits json.splits)
  have server_rest: "\<forall>k. k \<noteq> ''link'' \<longrightarrow> nested e7 ''server'' k = nested e ''server'' k"
    using g6e by (auto simp: nested_def server7 get_or_def update_conv' split: option.splits json.splits)
  have f6: "map_of e6 ''event'' = map_of e ''event''"
    by (simp add: m6 f5 split: option.splits)
  have g7e: "get_or e ''event'' (JObj []) = JObj g7"
    using g7 f6 by (simp add: get_or_def)
  have event7: "map_of e7 ''event'' =
      (case map_of b ''event_link'' of
         Some v \<Rightarrow> Some (JObj (AList.update ''link'' v g7))
       | None \<Rightarrow> map_of e ''event'')"
    by (simp add: m7 f6 split: option.splits)
  have event_link: "nested e7 ''event'' ''link''
         = (case map_of b ''event_link'' of Some v \<Rightarrow> Some v | None \<Rightarrow> nested e ''event'' ''link'')"
    using g7e by (auto simp: nested_def event7 get_or_def update_conv' split: option.splits json.splits)
  have event_rest: "\<forall>k. k \<noteq> ''link'' \<longrightarrow> nested e7 ''event'' k = nested e ''event'' k"
    using g7e by (auto simp: nested_def event7 get_or_def update_conv' split: option.splits json.splits)
  have ok7: "is_obj (get_or e7 ''gate'' (JObj []))" "is_obj (get_or e7 ''server'' (JObj []))"
    "is_obj (get_or e7 ''event'' (JObj []))"
    using g4e g6e g7e
    by (auto simp: get_or_def gate7 server7 event7 is_obj_def split: option.splits)
  have "applied b e e7"
    unfolding applied_def
    using top gate_dep gate_arr server_link event_link others gate_rest server_rest event_rest
    by (intro conjI)
  moreover have "nested_ok e7"
    unfolding nested_ok_def using ok7 by (intro conjI)
  ultimately show ?thesis using run by blast
qed

lemma applied_top:
  assumes "applied b e e'" and "f \<in> {''status'', ''alerts'', ''meal_service''}"
  shows "map_of e' f = (case map_of b f of Some v \<Rightarrow> Some v | None \<Rightarrow> map_of e f)"
  using assms unfolding applied_def by (elim conjE) (erule bspec)

lemma applied_gate_dep:
  assumes "applied b e e'"
  shows "nested e' ''gate'' ''dep''
     = (case map_of b ''gate_dep'' of Some v \<Rightarrow> Some v | None \<Rightarrow> nested e ''gate'' ''dep'')"
  using assms unfolding applied_def by (elim conjE)

lemma applied_gate_arr:
  assumes "applied b e e'"
  shows "nested e' ''gate'' ''arr''
     = (case map_of b ''gate_arr'' of Some v \<Rightarrow> Some v | None \<Rightarrow> nested e ''gate'' ''arr'')"
  using assms unfolding applied_def by (elim conjE)

lemma applied_other:
  assumes "applied b e e'"
    and "k \<notin> {''status'', ''alerts'', ''meal_service'', ''gate'', ''server'', ''event''}"
  shows "map_of e' k = map_of e k"
  using assms unfolding applied_def by (elim conjE) (erule allE, erule mp)


subsection \<open>Printing a date and reading it back\<close>

lemma first_match_valid: "first_match ms = Some (y, m, d) \<Longrightarrow> valid_date y m d"
  by (auto simp: first_match_def split: list.splits if_splits)

lemma strptime_dmY_valid: "strptime_dmY s = Some (y, m, d) \<Longrightarrow> valid_date y m d"
  unfolding strptime_dmY_def by (rule first_match_valid)

lemma strptime_Ymd_valid: "strptime_Ymd s = Some (y, m, d) \<Longrightarrow> valid_date y m d"
  unfolding strptime_Ymd_def by (rule first_match_valid)

lemma days_in_month_le: "days_in_month y m \<le> 31"
  by (simp add: days_in_month_def)

lemma ordinal_suffix_cases:
  "ordinal_suffix d =
     (if d = 11 \<or> d = 12 \<or> d = 13 then ''th''
      else if d mod 10 = 1 then ''st''
      else if d mod 10 = 2 then ''nd''
      else if d mod 10 = 3 then ''rd''
      else ''th'')"
  by (auto simp: ordinal_suffix_def)



lemma is_digit19_digit_char: "k < 10 \<Longrightarrow> is_digit19 (digit_char k) \<longleftrightarrow> 1 \<le> k"
  by (auto simp: is_digit19_def less_eq_char_def of_char_digit_char)











subsection \<open>The entry a POST builds\<close>



lemma map_of_append_notin: "k \<notin> fst ` set xs \<Longrightarrow> map_of (xs @ ys) k = map_of ys k"
  by (induction xs) auto






subsection \<open>Grouping and sorting\<close>











subsection \<open>Signing and verifying a token\<close>

lemma dropWhile_upto:
  "\<forall>c\<in>set xs. P c \<Longrightarrow> \<not> P y \<Longrightarrow> dropWhile P (xs @ y # ys) = y # ys"
  by (induction xs) simp_all

lemma takeWhile_upto:
  "\<forall>c\<in>set xs. P c \<Longrightarrow> \<not> P y \<Longrightarrow> takeWhile P (xs @ y # ys) = xs"
  by (induction xs) simp_all

lemma rsplit_dot_append:
  assumes "CHR ''.'' \<notin> set sig"
  shows "rsplit_dot (b64 @ ''.'' @ sig) = Some (b64, sig)"
proof -
  have r: "rev (b64 @ ''.'' @ sig) = rev sig @ CHR ''.'' # rev b64" by simp
  from assms have a: "\<forall>c\<in>set (rev sig). c \<noteq> CHR ''.''" by auto
  have d: "dropWhile (\<lambda>c. c \<noteq> CHR ''.'') (rev sig @ CHR ''.'' # rev b64) = CHR ''.'' # rev b64"
    by (rule dropWhile_upto [OF a]) simp
  have t: "takeWhile (\<lambda>c. c \<noteq> CHR ''.'') (rev sig @ CHR ''.'' # rev b64) = rev sig"
    by (rule takeWhile_upto [OF a]) simp
  have m: "CHR ''.'' \<in> set (b64 @ ''.'' @ sig)" by simp
  show ?thesis
    unfolding rsplit_dot_def r d t using m by simp
qed

lemma hex_digit:
  assumes "c \<in> set ''0123456789abcdef''"
  shows "c \<noteq> CHR ''.''" and "(of_char c :: nat) < 128"
proof -
  from assms have "(of_char c :: nat) \<in> of_char ` set ''0123456789abcdef''" by (rule imageI)
  then have n: "(of_char c :: nat) \<in> {48, 49, 50, 51, 52, 53, 54, 55, 56, 57, 97, 98, 99, 100, 101, 102}"
    by simp
  then show "(of_char c :: nat) < 128" by auto
  from n have "(of_char c :: nat) \<noteq> 46" by auto
  then show "c \<noteq> CHR ''.''" by auto
qed

lemma is_hex_ascii: "is_hex s \<Longrightarrow> is_ascii s"
  unfolding is_hex_def is_ascii_def list_all_iff using hex_digit(2) by blast

lemma is_hex_no_dot: "is_hex s \<Longrightarrow> CHR ''.'' \<notin> set s"
  unfolding is_hex_def list_all_iff using hex_digit(1) by blast

lemma compare_digest_same: "is_ascii s \<Longrightarrow> compare_digest s s = Some True"
  by (simp add: compare_digest_def)

lemma compare_digest_other: "a \<noteq> b \<Longrightarrow> compare_digest a b = None \<or> compare_digest a b = Some False"
  by (simp add: compare_digest_def)

lemma verify_payload_Some:
  "verify_payload q now = Some p \<Longrightarrow>
     p = q \<and> (\<exists>d e. q = JObj d \<and> num_of (get_or d ''exp'' (JInt 0)) = Some e \<and> now \<le> real_of_int e)"
  by (auto simp: verify_payload_def split: json.splits option.splits if_splits)

lemma verify_signed:
  assumes "json_loads L (json_dumps L payload) = Some payload"
    and "b64decode L (b64encode L (json_dumps L payload)) = Some (json_dumps L payload)"
    and "is_hex (hmac_hex L key (b64encode L (json_dumps L payload)))"
  shows "verify L key (sign L key payload) now = verify_payload payload now"
proof -
  define b64 where "b64 = b64encode L (json_dumps L payload)"
  define sig where "sig = hmac_hex L key b64"
  have s: "sign L key payload = b64 @ ''.'' @ sig"
    by (simp add: sign_def Let_def b64_def sig_def)
  from assms(3) have hex: "is_hex sig" by (simp add: sig_def b64_def)
  have sp: "rsplit_dot (b64 @ ''.'' @ sig) = Some (b64, sig)"
    by (rule rsplit_dot_append) (rule is_hex_no_dot [OF hex])
  have cd: "compare_digest sig (hmac_hex L key b64) = Some True"
    unfolding sig_def [symmetric] by (rule compare_digest_same) (rule is_hex_ascii [OF hex])
  from assms(2) have dec: "b64decode L b64 = Some (json_dumps L payload)" by (simp add: b64_def)
  show ?thesis
    unfolding s verify_def sp by (simp add: cd dec assms(1))
qed

lemma verify_Some:
  assumes "verify L key token now = Some p"
  shows "\<exists>b64 raw. rsplit_dot token = Some (b64, hmac_hex L key b64)
     \<and> b64decode L b64 = Some raw \<and> json_loads L raw = Some p \<and> verify_payload p now = Some p"
proof -
  from assms obtain b64 sig where sp: "rsplit_dot token = Some (b64, sig)"
    by (cases "rsplit_dot token") (auto simp: verify_def)
  from assms sp have cd: "compare_digest sig (hmac_hex L key b64) = Some True"
    by (cases "compare_digest sig (hmac_hex L key b64)") (auto simp: verify_def split: if_splits)
  then have eq: "sig = hmac_hex L key b64"
    by (simp add: compare_digest_def split: if_splits)
  from assms sp cd obtain raw where dec: "b64decode L b64 = Some raw"
    by (cases "b64decode L b64") (auto simp: verify_def)
  from assms sp cd dec obtain q where q: "json_loads L raw = Some q"
    by (cases "json_loads L raw") (auto simp: verify_def)
  from assms sp cd dec q have vp: "verify_payload q now = Some p" by (simp add: verify_def)
  from verify_payload_Some [OF vp] have "p = q" by simp
  with sp eq dec q vp show ?thesis by auto
qed

lemma example_token:
  "sign example_lib example_key example_payload = example_b64 @ ''.'' @ example_sig"
  by (simp add: sign_def Let_def example_lib_def)

lemma example_lib_ok:
  "json_loads example_lib (json_dumps example_lib example_payload) = Some example_payload"
  "b64decode example_lib (b64encode example_lib (json_dumps example_lib example_payload))
     = Some (json_dumps example_lib example_payload)"
  "is_hex (hmac_hex example_lib example_key
     (b64encode example_lib (json_dumps example_lib example_payload)))"
  by (simp_all add: example_lib_def is_hex_def example_sig_def)



subsection \<open>Real flights\<close>

text \<open>
  Claim C3. A key/entry pair is among the real flights exactly when it is a pair of the
  store, the entry is a dictionary with a \<^verbatim>\<open>flight_number\<close> field, the key has length 6
  and the key does not end in \<^verbatim>\<open>_pending\<close>.
\<close>

theorem get_real_flights_iff:
  "(code, entry) \<in> set (get_real_flights user_data) \<longleftrightarrow>
     (code, entry) \<in> set user_data
     \<and> (\<exists>d. entry = JObj d \<and> ''flight_number'' \<in> fst ` set d)
     \<and> length code = 6
     \<and> \<not> (\<exists>p. code = p @ ''_pending'')"
  by (cases entry) (auto simp: get_real_flights_def is_real_def endswith_iff)

text \<open>A store with a flight under a six-character code, a wizard session under the
  submitter's id and its \<^verbatim>\<open>_pending\<close> copy: only the first is real.\<close>

theorem get_real_flights_iff_witness:
  "(''AC8810'', JObj [(''flight_number'', JStr ''AC8810'')])
     \<in> set (get_real_flights
          [(''AC8810'', JObj [(''flight_number'', JStr ''AC8810'')]),
           (''611_pending'', JObj [(''flight_number'', JStr ''AC8810'')]),
           (''611'', JObj [(''flight_number'', JStr ''AC8810'')])])
   \<and> (''611_pending'', JObj [(''flight_number'', JStr ''AC8810'')])
     \<notin> set (get_real_flights
          [(''AC8810'', JObj [(''flight_number'', JStr ''AC8810'')]),
           (''611_pending'', JObj [(''flight_number'', JStr ''AC8810'')]),
           (''611'', JObj [(''flight_number'', JStr ''AC8810'')])])
   \<and> (''611'', JObj [(''flight_number'', JStr ''AC8810'')])
     \<notin> set (get_real_flights
          [(''AC8810'', JObj [(''flight_number'', JStr ''AC8810'')]),
           (''611_pending'', JObj [(''flight_number'', JStr ''AC8810'')]),
           (''611'', JObj [(''flight_number'', JStr ''AC8810'')])])"
  using get_real_flights_iff [of "''AC8810''" "JObj [(''flight_number'', JStr ''AC8810'')]"
      "[(''AC8810'', JObj [(''flight_number'', JStr ''AC8810'')]),
        (''611_pending'', JObj [(''flight_number'', JStr ''AC8810'')]),
        (''611'', JObj [(''flight_number'', JStr ''AC8810'')])]"]
    get_real_flights_iff [of "''611_pending''" "JObj [(''flight_number'', JStr ''AC8810'')]"
      "[(''AC8810'', JObj [(''flight_number'', JStr ''AC8810'')]),
        (''611_pending'', JObj [(''flight_number'', JStr ''AC8810'')]),
        (''611'', JObj [(''flight_number'', JStr ''AC8810'')])]"]
    get_real_flights_iff [of "''611''" "JObj [(''flight_number'', JStr ''AC8810'')]"
      "[(''AC8810'', JObj [(''flight_number'', JStr ''AC8810'')]),
        (''611_pending'', JObj [(''flight_number'', JStr ''AC8810'')]),
        (''611'', JObj [(''flight_number'', JStr ''AC8810'')])]"]
  by simp

subsection \<open>Finalizing a submission\<close>

lemma new_code_example: "new_code [(''611'', v)] id = Some (''ABCDEF'', \<lambda>i. id (i + 6))"
  by (simp add: new_code_def generate_code_eq length_alphabet upt_rec alphabet_def resample_fresh)

text \<open>Submitter 611 presses Yes on the last step, with a session under the key
  \<^verbatim>\<open>611\<close> and a generator that draws 0, 1, 2, ...\<close>

lemma yes_button_example:
  "yes_button \<lparr>user_id = 611, is_last_step = True\<rparr> 611
     [(''611'', JObj [(''flight_number'', JStr ''AC8810''), (''dep_date'', JStr ''20092025'')])]
     id ''2025-09-01T10:00:00''
   = Some (Saved ''ABCDEF'',
       [(''611'', JObj [(''flight_number'', JStr ''AC8810''), (''dep_date'', JStr ''20092025'')]),
        (''ABCDEF'', JObj
          [(''code'', JStr ''ABCDEF''), (''host_user_id'', JInt 611),
           (''flight_number'', JStr ''AC8810''), (''dep_date'', JStr ''20092025''),
           (''gate'', JObj [(''dep'', JStr ''N/A''), (''arr'', JStr ''N/A'')]),
           (''meal_service'', JStr ''N/A''), (''status'', JStr ''N/A''),
           (''alerts'', JStr ''N/A''),
           (''server'', JObj [(''link'', JStr ''N/A'')]),
           (''event'', JObj [(''link'', JStr ''N/A'')]),
           (''public_message_id'', JNull), (''admin_message_id'', JNull),
           (''created_at'', JStr ''2025-09-01T10:00:00Z'')]),
        (''611_pending'',
         JObj [(''flight_number'', JStr ''AC8810''), (''dep_date'', JStr ''20092025'')])])"
  by (simp add: yes_button_def lookup_def get_or_def text_eval new_code_example dict_display_def)

text \<open>
  Claim C1, as amended. When the submitter presses Yes on the last step, a session
  dictionary with a \<^verbatim>\<open>flight_number\<close> is stored under the submitter's id and the
  generator draws a code that is no key of the store, the handler saves: the store gets
  one new entry under the new code, which is the one new real flight and carries the
  session's fields and the defaults (gates, meal service, status and alerts
  \<^verbatim>\<open>N/A\<close>); the session is stored under the id followed by \<^verbatim>\<open>_pending\<close>; and the
  session stays under the plain id as well.
\<close>

theorem yes_button_finalize:
  assumes press: "presser = user_id view" and last: "is_last_step view"
    and session: "map_of user_data (str_int (user_id view)) = Some (JObj e)"
    and fn: "''flight_number'' \<in> fst ` set e" and dist: "distinct (map fst e)"
    and fresh: "fst (generate_code 6 (\<lambda>i. rng (i + 6 * k))) \<notin> fst ` set user_data"
  shows "\<exists>code fe store'.
     yes_button view presser user_data rng now = Some (Saved code, store')
     \<and> store' = AList.update (str_int (user_id view) @ ''_pending'') (JObj e)
                  (user_data @ [(code, JObj fe)])
     \<and> code \<notin> fst ` set user_data
     \<and> get_real_flights store' = get_real_flights user_data @ [(code, JObj fe)]
     \<and> map_of fe ''gate'' = Some (JObj [(''dep'', JStr ''N/A''), (''arr'', JStr ''N/A'')])
     \<and> map_of fe ''meal_service'' = Some (JStr ''N/A'')
     \<and> map_of fe ''status'' = Some (JStr ''N/A'')
     \<and> map_of fe ''alerts'' = Some (JStr ''N/A'')
     \<and> map_of fe ''flight_number'' = map_of e ''flight_number''
     \<and> map_of store' (str_int (user_id view) @ ''_pending'') = Some (JObj e)
     \<and> map_of store' (str_int (user_id view)) = Some (JObj e)"
proof -
  from new_code_returns [of rng k user_data] fresh
  obtain code rng' where nc: "new_code user_data rng = Some (code, rng')" by auto
  from new_code_sound [OF nc]
  have len: "length code = 6" and notin: "code \<notin> fst ` set user_data" by simp_all
  define items where "items =
     [(''code'', JStr code), (''host_user_id'', JInt (user_id view))] @ e
     @ [(''gate'', JObj [(''dep'', JStr ''N/A''), (''arr'', JStr ''N/A'')]),
        (''meal_service'', JStr ''N/A''),
        (''status'', JStr ''N/A''),
        (''alerts'', JStr ''N/A''),
        (''server'', JObj [(''link'', JStr ''N/A'')]),
        (''event'', JObj [(''link'', JStr ''N/A'')]),
        (''public_message_id'', JNull),
        (''admin_message_id'', JNull),
        (''created_at'', JStr (now @ ''Z''))]"
  define fe where "fe = dict_display items"
  define pk where "pk = str_int (user_id view) @ ''_pending''"
  define store' where "store' = AList.update pk (JObj e) (user_data @ [(code, JObj fe)])"
  have run: "yes_button view presser user_data rng now = Some (Saved code, store')"
    using press last session nc notin
    by (simp add: yes_button_def lookup_def get_or_def store'_def pk_def fe_def items_def
        update_absent)
  have uid_ne: "str_int (user_id view) \<noteq> code"
    using map_of_SomeD [OF session] notin by force
  have fn': "''flight_number'' \<in> fst ` set fe"
    using fn by (simp add: fe_def keys_dict_display items_def)
  have real: "get_real_flights store' = get_real_flights user_data @ [(code, JObj fe)]"
    unfolding get_real_flights_def store'_def pk_def
    by (subst filter_update_out) (simp_all add: is_real_pending is_real_new_code [OF len fn'])
  have m: "map_of fe = map_of (rev items)"
    by (simp add: fe_def map_of_dict_display)
  have defaults:
    "map_of fe ''gate'' = Some (JObj [(''dep'', JStr ''N/A''), (''arr'', JStr ''N/A'')])"
    "map_of fe ''meal_service'' = Some (JStr ''N/A'')"
    "map_of fe ''status'' = Some (JStr ''N/A'')"
    "map_of fe ''alerts'' = Some (JStr ''N/A'')"
    by (simp_all add: m items_def)
  have merged: "map_of fe ''flight_number'' = map_of e ''flight_number''"
  proof -
    from fn obtain v where "map_of e ''flight_number'' = Some v"
      by (metis domD dom_map_of_conv_image_fst)
    then show ?thesis
      by (simp add: m items_def map_of_rev_distinct [OF dist] map_add_def)
  qed
  have pend: "map_of store' pk = Some (JObj e)"
    by (simp add: store'_def update_conv')
  have "pk \<noteq> str_int (user_id view)" by (simp add: pk_def)
  then have bare: "map_of store' (str_int (user_id view)) = Some (JObj e)"
    using session uid_ne by (simp add: store'_def update_conv' map_add_def)
  show ?thesis
    using run notin real defaults merged pend bare
    unfolding store'_def pk_def by blast
qed

theorem yes_button_finalize_witness:
  "\<exists>code fe store'.
     yes_button \<lparr>user_id = 611, is_last_step = True\<rparr> 611
     [(''611'', JObj [(''flight_number'', JStr ''AC8810''), (''dep_date'', JStr ''20092025'')])]
     id ''2025-09-01T10:00:00'' = Some (Saved code, store')
     \<and> get_real_flights store'
         = get_real_flights [(''611'', JObj [(''flight_number'', JStr ''AC8810''), (''dep_date'', JStr ''20092025'')])] @ [(code, JObj fe)]
     \<and> map_of fe ''status'' = Some (JStr ''N/A'')
     \<and> map_of store' ''611_pending'' = Some (JObj [(''flight_number'', JStr ''AC8810''), (''dep_date'', JStr ''20092025'')])
     \<and> map_of store' ''611'' = Some (JObj [(''flight_number'', JStr ''AC8810''), (''dep_date'', JStr ''20092025'')])"
proof -
  have uid: "str_int 611 = ''611''" by (simp add: text_eval)
  have h1: "(611::int) = user_id \<lparr>user_id = 611, is_last_step = True\<rparr>" by simp
  have h2: "is_last_step \<lparr>user_id = 611, is_last_step = True\<rparr>" by simp
  have h3: "map_of [(''611'', JObj [(''flight_number'', JStr ''AC8810''), (''dep_date'', JStr ''20092025'')])]
      (str_int (user_id \<lparr>user_id = 611, is_last_step = True\<rparr>)) = Some (JObj [(''flight_number'', JStr ''AC8810''), (''dep_date'', JStr ''20092025'')])"
    by (simp add: uid)
  have h4: "''flight_number'' \<in> fst ` set [(''flight_number'', JStr ''AC8810''), (''dep_date'', JStr ''20092025'')]"
    by simp
  have h5: "distinct (map fst [(''flight_number'', JStr ''AC8810''), (''dep_date'', JStr ''20092025'')])"
    by simp
  have h6: "fst (generate_code 6 (\<lambda>i. id (i + 6 * 0)))
      \<notin> fst ` set [(''611'', JObj [(''flight_number'', JStr ''AC8810''), (''dep_date'', JStr ''20092025'')])]"
    by (simp add: generate_code_eq length_alphabet upt_rec alphabet_def)
  from yes_button_finalize [OF h1 h2 h3 h4 h5 h6, of "''2025-09-01T10:00:00''"]
  obtain code fe store' where
    "yes_button \<lparr>user_id = 611, is_last_step = True\<rparr> 611
       [(''611'', JObj [(''flight_number'', JStr ''AC8810''), (''dep_date'', JStr ''20092025'')])]
       id ''2025-09-01T10:00:00'' = Some (Saved code, store')"
    "get_real_flights store'
       = get_real_flights
           [(''611'', JObj [(''flight_number'', JStr ''AC8810''), (''dep_date'', JStr ''20092025'')])]
         @ [(code, JObj fe)]"
    "map_of fe ''status'' = Some (JStr ''N/A'')"
    "map_of store' (str_int (user_id \<lparr>user_id = 611, is_last_step = True\<rparr>) @ ''_pending'')
       = Some (JObj [(''flight_number'', JStr ''AC8810''), (''dep_date'', JStr ''20092025'')])"
    "map_of store' (str_int (user_id \<lparr>user_id = 611, is_last_step = True\<rparr>))
       = Some (JObj [(''flight_number'', JStr ''AC8810''), (''dep_date'', JStr ''20092025'')])"
    by blast
  then show ?thesis by (simp add: uid)
qed

text \<open>The claim as it was stated has the plain id no longer a key once the flight is
  saved. In the example it still is.\<close>

theorem yes_button_session_counterexample:
  "yes_button \<lparr>user_id = 611, is_last_step = True\<rparr> 611
     [(''611'', JObj [(''flight_number'', JStr ''AC8810''), (''dep_date'', JStr ''20092025'')])]
     id ''2025-09-01T10:00:00''
   = Some (Saved ''ABCDEF'',
       [(''611'', JObj [(''flight_number'', JStr ''AC8810''), (''dep_date'', JStr ''20092025'')]),
        (''ABCDEF'', JObj
          [(''code'', JStr ''ABCDEF''), (''host_user_id'', JInt 611),
           (''flight_number'', JStr ''AC8810''), (''dep_date'', JStr ''20092025''),
           (''gate'', JObj [(''dep'', JStr ''N/A''), (''arr'', JStr ''N/A'')]),
           (''meal_service'', JStr ''N/A''), (''status'', JStr ''N/A''),
           (''alerts'', JStr ''N/A''),
           (''server'', JObj [(''link'', JStr ''N/A'')]),
           (''event'', JObj [(''link'', JStr ''N/A'')]),
           (''public_message_id'', JNull), (''admin_message_id'', JNull),
           (''created_at'', JStr ''2025-09-01T10:00:00Z'')]),
        (''611_pending'',
         JObj [(''flight_number'', JStr ''AC8810''), (''dep_date'', JStr ''20092025'')])])
   \<and> ''611'' \<in> fst ` set
       [(''611'', JObj [(''flight_number'', JStr ''AC8810''), (''dep_date'', JStr ''20092025'')]),
        (''ABCDEF'', JObj
          [(''code'', JStr ''ABCDEF''), (''host_user_id'', JInt 611),
           (''flight_number'', JStr ''AC8810''), (''dep_date'', JStr ''20092025''),
           (''gate'', JObj [(''dep'', JStr ''N/A''), (''arr'', JStr ''N/A'')]),
           (''meal_service'', JStr ''N/A''), (''status'', JStr ''N/A''),
           (''alerts'', JStr ''N/A''),
           (''server'', JObj [(''link'', JStr ''N/A'')]),
           (''event'', JObj [(''link'', JStr ''N/A'')]),
           (''public_message_id'', JNull), (''admin_message_id'', JNull),
           (''created_at'', JStr ''2025-09-01T10:00:00Z'')]),
        (''611_pending'',
         JObj [(''flight_number'', JStr ''AC8810''), (''dep_date'', JStr ''20092025'')])]"
  using yes_button_example by simp

subsection \<open>Codes of flights and of error reports\<close>

text \<open>
  Claim C2, as amended. The code of a flight is drawn by the same loop on both paths that
  make a flight, the dashboard's \<^verbatim>\<open>POST /api/flights\<close> and the wizard's last Yes: when
  the loop ends, its code has 6 characters, each a capital letter or a digit, and is no
  key of the store; the loop ends as soon as one draw of six is no key of the store; a
  store that \<^verbatim>\<open>create_flight\<close> changed is the old store with one entry added under
  that code, and a flight that \<^verbatim>\<open>yes_button\<close> saved is stored under that code. An error
  reference code has 7 characters, each a capital letter or a digit (it is not compared
  with the store).
\<close>

theorem code_generation:
  "(\<forall>code rng'. new_code user_data rng = Some (code, rng') \<longrightarrow>
       length code = 6
       \<and> (\<forall>c\<in>set code. (CHR ''A'' \<le> c \<and> c \<le> CHR ''Z'') \<or> (CHR ''0'' \<le> c \<and> c \<le> CHR ''9''))
       \<and> code \<notin> fst ` set user_data)
   \<and> ((\<exists>k. fst (generate_code 6 (\<lambda>i. rng (i + 6 * k))) \<notin> fst ` set user_data) \<longrightarrow>
        (\<exists>code rng'. new_code user_data rng = Some (code, rng')))
   \<and> (\<forall>r store'. create_flight user_data body rng now = Some (r, store') \<and> store' \<noteq> user_data \<longrightarrow>
        (\<exists>code rng' entry. new_code user_data rng = Some (code, rng')
           \<and> store' = user_data @ [(code, entry)]))
   \<and> (\<forall>code store'. yes_button view presser user_data rng now = Some (Saved code, store') \<longrightarrow>
        (\<exists>rng'. new_code user_data rng = Some (code, rng')) \<and> code \<in> fst ` set store')
   \<and> length (fst (err_code rng)) = 7
   \<and> (\<forall>c\<in>set (fst (err_code rng)). (CHR ''A'' \<le> c \<and> c \<le> CHR ''Z'') \<or> (CHR ''0'' \<le> c \<and> c \<le> CHR ''9''))"
proof (intro conjI allI impI)
  fix code rng'
  assume nc: "new_code user_data rng = Some (code, rng')"
  from new_code_sound [OF nc]
  show "length code = 6" "code \<notin> fst ` set user_data" by simp_all
  from new_code_sound [OF nc] alphabet_chars
  show "\<forall>c\<in>set code. (CHR ''A'' \<le> c \<and> c \<le> CHR ''Z'') \<or> (CHR ''0'' \<le> c \<and> c \<le> CHR ''9'')"
    by blast
next
  assume "\<exists>k. fst (generate_code 6 (\<lambda>i. rng (i + 6 * k))) \<notin> fst ` set user_data"
  then show "\<exists>code rng'. new_code user_data rng = Some (code, rng')"
    using new_code_returns [of rng _ user_data] by auto
next
  fix r store'
  assume a: "create_flight user_data body rng now = Some (r, store') \<and> store' \<noteq> user_data"
  with create_flight_store [of user_data body rng now r store']
  obtain code rng' entry where nc: "new_code user_data rng = Some (code, rng')"
    and st: "store' = AList.update code entry user_data"
    by blast
  from new_code_sound [OF nc] have "code \<notin> fst ` set user_data" by simp
  with st have "store' = user_data @ [(code, entry)]" by (simp add: update_absent)
  with nc show "\<exists>code rng' entry. new_code user_data rng = Some (code, rng')
           \<and> store' = user_data @ [(code, entry)]" by blast
next
  fix code store'
  assume a: "yes_button view presser user_data rng now = Some (Saved code, store')"
  from yes_button_saved [OF a]
  obtain rng' v fe where nc: "new_code user_data rng = Some (code, rng')"
    and st: "store' = AList.update (str_int (user_id view) @ ''_pending'') v
               (AList.update code fe user_data)"
    by blast
  from nc show "\<exists>rng'. new_code user_data rng = Some (code, rng')" by blast
  have "code \<in> dom (map_of store')" unfolding st by (simp add: update_conv')
  then show "code \<in> fst ` set store'" by (simp add: dom_map_of_conv_image_fst)
next
  show "length (fst (err_code rng)) = 7"
    by (simp add: err_code_def generate_ref_code_eq length_generate_code)
  from set_generate_code [of 7 rng] alphabet_chars
  show "\<forall>c\<in>set (fst (err_code rng)). (CHR ''A'' \<le> c \<and> c \<le> CHR ''Z'') \<or> (CHR ''0'' \<le> c \<and> c \<le> CHR ''9'')"
    unfolding err_code_def generate_ref_code_eq by blast
qed

text \<open>The wizard's example again: the loop ends with the first draw, the saved flight is
  stored under it, and the reference code of an error report has seven characters.\<close>

theorem code_generation_witness:
  "new_code [(''611'', JObj [(''flight_number'', JStr ''AC8810''), (''dep_date'', JStr ''20092025'')])] id = Some (''ABCDEF'', \<lambda>i. id (i + 6))
   \<and> length ''ABCDEF'' = 6
   \<and> ''ABCDEF'' \<notin> fst ` set [(''611'', JObj [(''flight_number'', JStr ''AC8810''), (''dep_date'', JStr ''20092025'')])]
   \<and> ''ABCDEF'' \<in> fst ` set
       [(''611'', JObj [(''flight_number'', JStr ''AC8810''), (''dep_date'', JStr ''20092025'')]),
        (''ABCDEF'', JObj
          [(''code'', JStr ''ABCDEF''), (''host_user_id'', JInt 611),
           (''flight_number'', JStr ''AC8810''), (''dep_date'', JStr ''20092025''),
           (''gate'', JObj [(''dep'', JStr ''N/A''), (''arr'', JStr ''N/A'')]),
           (''meal_service'', JStr ''N/A''), (''status'', JStr ''N/A''),
           (''alerts'', JStr ''N/A''),
           (''server'', JObj [(''link'', JStr ''N/A'')]),
           (''event'', JObj [(''link'', JStr ''N/A'')]),
           (''public_message_id'', JNull), (''admin_message_id'', JNull),
           (''created_at'', JStr ''2025-09-01T10:00:00Z'')]),
        (''611_pending'',
         JObj [(''flight_number'', JStr ''AC8810''), (''dep_date'', JStr ''20092025'')])]
   \<and> length (fst (err_code id)) = 7"
  using
    code_generation [of "[(''611'', JObj [(''flight_number'', JStr ''AC8810''), (''dep_date'', JStr ''20092025'')])]" id
      JNull "''2025-09-01T10:00:00''" "\<lparr>user_id = 611, is_last_step = True\<rparr>" 611]
    new_code_example [of "JObj [(''flight_number'', JStr ''AC8810''), (''dep_date'', JStr ''20092025'')]"]
    yes_button_example
  by simp

text \<open>The claim as it was stated gives the code of a flight finished in the chat 7
  characters. The code of the example has 6.\<close>

theorem wizard_code_length_counterexample:
  "yes_button \<lparr>user_id = 611, is_last_step = True\<rparr> 611
     [(''611'', JObj [(''flight_number'', JStr ''AC8810''), (''dep_date'', JStr ''20092025'')])]
     id ''2025-09-01T10:00:00''
   = Some (Saved ''ABCDEF'',
       [(''611'', JObj [(''flight_number'', JStr ''AC8810''), (''dep_date'', JStr ''20092025'')]),
        (''ABCDEF'', JObj
          [(''code'', JStr ''ABCDEF''), (''host_user_id'', JInt 611),
           (''flight_number'', JStr ''AC8810''), (''dep_date'', JStr ''20092025''),
           (''gate'', JObj [(''dep'', JStr ''N/A''), (''arr'', JStr ''N/A'')]),
           (''meal_service'', JStr ''N/A''), (''status'', JStr ''N/A''),
           (''alerts'', JStr ''N/A''),
           (''server'', JObj [(''link'', JStr ''N/A'')]),
           (''event'', JObj [(''link'', JStr ''N/A'')]),
           (''public_message_id'', JNull), (''admin_message_id'', JNull),
           (''created_at'', JStr ''2025-09-01T10:00:00Z'')]),
        (''611_pending'',
         JObj [(''flight_number'', JStr ''AC8810''), (''dep_date'', JStr ''20092025'')])])
   \<and> length ''ABCDEF'' \<noteq> 7"
  using yes_button_example by simp

subsection \<open>GET of one flight\<close>




subsection \<open>PATCH of one flight\<close>

text \<open>
  Claim C4. The claim holds for every \<^verbatim>\<open>status\<close> that is text, a number, a boolean or
  null and is outside the set of statuses (lemma \<open>update_flight_bad_status\<close>: the answer
  is 422 and the store is the one before). It fails for a \<^verbatim>\<open>status\<close> that is a JSON
  object: the membership test hashes the value, a dictionary cannot be hashed, and the
  TypeError leaves the handler as a 500. The store is unchanged there too.
\<close>

theorem update_flight_unhashable_status:
  "update_flight [(''AB12CD'', JObj [(''flight_number'', JStr ''AC8810'')])] ''AB12CD''
     (JObj [(''status'', JObj []), (''alerts'', JStr ''Storm'')])
   = (Inl TypeError, [(''AB12CD'', JObj [(''flight_number'', JStr ''AC8810'')])])"
  by (simp add: update_flight_def Let_def lookup_def get_or_def found_obj check_status_obj
      upper_def upper_char_def char_eq_nat)

text \<open>
  Claim C5. For a stored dictionary with a \<^verbatim>\<open>flight_number\<close> whose \<^verbatim>\<open>gate\<close>,
  \<^verbatim>\<open>server\<close> and \<^verbatim>\<open>event\<close>, where present, are dictionaries, and a body that is a JSON
  object whose \<^verbatim>\<open>status\<close>, if it has one, is one of the six statuses: the handler
  answers 200 with the serialized entry and stores the entry with every recognized
  field of the body applied (\<^verbatim>\<open>status\<close>, \<^verbatim>\<open>alerts\<close>, \<^verbatim>\<open>meal_service\<close> at the top,
  \<^verbatim>\<open>gate_dep\<close>, \<^verbatim>\<open>gate_arr\<close>, \<^verbatim>\<open>server_link\<close>, \<^verbatim>\<open>event_link\<close> one level down) and
  everything else as it was. No other name in the body has any effect: the new entry
  is described by the recognized fields alone.
\<close>

theorem update_flight_applies_fields:
  assumes ent: "map_of user_data (upper code0) = Some (JObj e)"
    and fn: "''flight_number'' \<in> fst ` set e"
    and ok: "nested_ok e"
    and status: "\<forall>v. map_of b ''status'' = Some v \<longrightarrow> v \<in> JStr ` set VALID_STATUSES"
  shows "\<exists>e' resp.
     update_flight user_data code0 (JObj b)
       = (Inr (JObj resp), AList.update (upper code0) (JObj e') user_data)
     \<and> serialize_entry (upper code0) (JObj e') = Inr (JObj resp)
     \<and> applied b e e'"
proof -
  from ok have "is_obj (get_or e ''gate'' (JObj []))" "is_obj (get_or e ''server'' (JObj []))"
    "is_obj (get_or e ''event'' (JObj []))"
    by (simp_all add: nested_ok_def)
  from apply_fields_field_map [OF this, of b]
  obtain e' u where run: "apply_fields field_map (JObj b) (JObj e) [] = (None, JObj e', u)"
    and ap: "applied b e e'" and ok': "nested_ok e'"
    by blast
  from ok' have "is_obj (get_or e' ''gate'' (JObj []))" "is_obj (get_or e' ''server'' (JObj []))"
    "is_obj (get_or e' ''event'' (JObj []))"
    by (simp_all add: nested_ok_def)
  from serialize_entry_ok [OF this, of "upper code0"]
  obtain resp where ser: "serialize_entry (upper code0) (JObj e') = Inr (JObj resp)" by blast
  have chk: "check_status (JObj b) = Inr ()"
  proof (cases "map_of b ''status''")
    case None
    then show ?thesis by (simp add: check_status_obj)
  next
    case (Some v)
    with status obtain s where "v = JStr s" "s \<in> set VALID_STATUSES" by blast
    with Some show ?thesis by (simp add: check_status_obj)
  qed
  have fnd: "found (JObj e) = Inr ()"
    using fn by (simp add: found_obj)
  have lk: "lookup user_data (upper code0) = JObj e"
    using ent by (simp add: lookup_def get_or_def)
  have "update_flight user_data code0 (JObj b)
       = (Inr (JObj resp), AList.update (upper code0) (JObj e') user_data)"
    unfolding update_flight_def Let_def lk fnd chk run by (simp add: ser)
  with ser ap show ?thesis by blast
qed

text \<open>A flight at gate A1, and a body that sets the status and the arrival gate and also
  names a field the handler does not know: status and arrival gate are set, the
  departure gate and the flight number stay.\<close>

theorem update_flight_applies_fields_witness:
  "\<exists>e' resp.
     update_flight
       [(''AB12CD'', JObj [(''flight_number'', JStr ''AC8810''),
          (''gate'', JObj [(''dep'', JStr ''A1''), (''arr'', JStr ''N/A'')])])]
       ''ab12cd''
       (JObj [(''status'', JStr ''Delayed''), (''seat'', JStr ''12A''), (''gate_arr'', JStr ''B2'')])
       = (Inr (JObj resp), AList.update ''AB12CD'' (JObj e')
           [(''AB12CD'', JObj [(''flight_number'', JStr ''AC8810''),
              (''gate'', JObj [(''dep'', JStr ''A1''), (''arr'', JStr ''N/A'')])])])
     \<and> map_of e' ''status'' = Some (JStr ''Delayed'')
     \<and> nested e' ''gate'' ''arr'' = Some (JStr ''B2'')
     \<and> nested e' ''gate'' ''dep'' = Some (JStr ''A1'')
     \<and> map_of e' ''flight_number'' = Some (JStr ''AC8810'')
     \<and> map_of e' ''seat'' = None"
proof -
  have u: "upper ''ab12cd'' = ''AB12CD''"
    by (simp add: upper_def upper_char_def char_eq_nat)
  have h1: "map_of
       [(''AB12CD'', JObj [(''flight_number'', JStr ''AC8810''),
          (''gate'', JObj [(''dep'', JStr ''A1''), (''arr'', JStr ''N/A'')])])]
       (upper ''ab12cd'')
     = Some (JObj [(''flight_number'', JStr ''AC8810''),
          (''gate'', JObj [(''dep'', JStr ''A1''), (''arr'', JStr ''N/A'')])])"
    by (simp add: u)
  have h2: "''flight_number'' \<in> fst ` set [(''flight_number'', JStr ''AC8810''),
          (''gate'', JObj [(''dep'', JStr ''A1''), (''arr'', JStr ''N/A'')])]"
    by simp
  have h3: "nested_ok [(''flight_number'', JStr ''AC8810''),
          (''gate'', JObj [(''dep'', JStr ''A1''), (''arr'', JStr ''N/A'')])]"
    by (simp add: nested_ok_def get_or_def is_obj_def)
  have h4: "\<forall>v. map_of [(''status'', JStr ''Delayed''), (''seat'', JStr ''12A''),
        (''gate_arr'', JStr ''B2'')] ''status'' = Some v \<longrightarrow> v \<in> JStr ` set VALID_STATUSES"
    by (simp add: VALID_STATUSES_def)
  from update_flight_applies_fields [OF h1 h2 h3 h4]
  obtain e' resp where upd:
    "update_flight
       [(''AB12CD'', JObj [(''flight_number'', JStr ''AC8810''),
          (''gate'', JObj [(''dep'', JStr ''A1''), (''arr'', JStr ''N/A'')])])]
       ''ab12cd''
       (JObj [(''status'', JStr ''Delayed''), (''seat'', JStr ''12A''), (''gate_arr'', JStr ''B2'')])
       = (Inr (JObj resp), AList.update (upper ''ab12cd'') (JObj e')
           [(''AB12CD'', JObj [(''flight_number'', JStr ''AC8810''),
              (''gate'', JObj [(''dep'', JStr ''A1''), (''arr'', JStr ''N/A'')])])])"
    and ap: "applied
       [(''status'', JStr ''Delayed''), (''seat'', JStr ''12A''), (''gate_arr'', JStr ''B2'')]
       [(''flight_number'', JStr ''AC8810''),
          (''gate'', JObj [(''dep'', JStr ''A1''), (''arr'', JStr ''N/A'')])] e'"
    by blast
  have "map_of e' ''status'' = Some (JStr ''Delayed'')"
    using applied_top [OF ap, of "''status''"] by simp
  moreover have "nested e' ''gate'' ''arr'' = Some (JStr ''B2'')"
    using applied_gate_arr [OF ap] by simp
  moreover have "nested e' ''gate'' ''dep'' = Some (JStr ''A1'')"
    using applied_gate_dep [OF ap] by (simp add: nested_def)
  moreover have "map_of e' ''flight_number'' = Some (JStr ''AC8810'')"
    using applied_other [OF ap, of "''flight_number''"] by simp
  moreover have "map_of e' ''seat'' = None"
    using applied_other [OF ap, of "''seat''"] by simp
  ultimately show ?thesis using upd unfolding u by blast
qed

subsection \<open>POST of a flight and the date it stores\<close>




subsection \<open>Flights by day\<close>



subsection \<open>Session tokens\<close>

text \<open>
  Claim C10, as amended. For a payload dictionary that \<^verbatim>\<open>json.loads\<close> gives back from
  its \<^verbatim>\<open>json.dumps\<close> (and base64 decoding gives back what was encoded, and the digest is
  text of hexadecimal digits) and whose \<^verbatim>\<open>exp\<close> is a number that is not below the
  current time, \<^verbatim>\<open>_verify(_sign(payload))\<close> is that payload: the time of expiry itself
  is still accepted. \<^verbatim>\<open>_verify\<close> returns on every token, and it returns \<^verbatim>\<open>None\<close> on a
  token without a dot, on a token whose part after the last dot is not the digest of the
  part before it, and on a token whose payload has an \<^verbatim>\<open>exp\<close> below the current time.
  Whatever it returns other than \<^verbatim>\<open>None\<close> is the decoded payload of a token with the
  right digest, a dictionary whose \<^verbatim>\<open>exp\<close> (0 if it has none) is a number not below the
  current time.
\<close>

theorem verify_spec:
  "(\<forall>d e. payload = JObj d \<and> num_of (get_or d ''exp'' (JInt 0)) = Some e \<and> now \<le> real_of_int e
       \<and> json_loads L (json_dumps L payload) = Some payload
       \<and> b64decode L (b64encode L (json_dumps L payload)) = Some (json_dumps L payload)
       \<and> is_hex (hmac_hex L key (b64encode L (json_dumps L payload)))
     \<longrightarrow> verify L key (sign L key payload) now = Some payload)
   \<and> (rsplit_dot token = None \<longrightarrow> verify L key token now = None)
   \<and> (\<forall>b64 sig. rsplit_dot token = Some (b64, sig) \<and> sig \<noteq> hmac_hex L key b64 \<longrightarrow>
        verify L key token now = None)
   \<and> (\<forall>b64 sig raw d e. rsplit_dot token = Some (b64, sig) \<and> b64decode L b64 = Some raw
        \<and> json_loads L raw = Some (JObj d) \<and> num_of (get_or d ''exp'' (JInt 0)) = Some e
        \<and> real_of_int e < now \<longrightarrow>
        verify L key token now = None)
   \<and> (\<forall>p. verify L key token now = Some p \<longrightarrow>
        (\<exists>b64 raw d e. rsplit_dot token = Some (b64, hmac_hex L key b64)
           \<and> b64decode L b64 = Some raw \<and> json_loads L raw = Some p
           \<and> p = JObj d \<and> num_of (get_or d ''exp'' (JInt 0)) = Some e \<and> now \<le> real_of_int e))"
proof (intro conjI allI impI)
  fix d e
  assume a: "payload = JObj d \<and> num_of (get_or d ''exp'' (JInt 0)) = Some e \<and> now \<le> real_of_int e
       \<and> json_loads L (json_dumps L payload) = Some payload
       \<and> b64decode L (b64encode L (json_dumps L payload)) = Some (json_dumps L payload)
       \<and> is_hex (hmac_hex L key (b64encode L (json_dumps L payload)))"
  then have h: "json_loads L (json_dumps L payload) = Some payload"
    "b64decode L (b64encode L (json_dumps L payload)) = Some (json_dumps L payload)"
    "is_hex (hmac_hex L key (b64encode L (json_dumps L payload)))"
    by blast+
  have "verify L key (sign L key payload) now = verify_payload payload now"
    by (rule verify_signed [OF h])
  also from a have "verify_payload payload now = Some payload"
    by (simp add: verify_payload_def)
  finally show "verify L key (sign L key payload) now = Some payload" .
next
  assume "rsplit_dot token = None"
  then show "verify L key token now = None" by (simp add: verify_def)
next
  fix b64 sig
  assume a: "rsplit_dot token = Some (b64, sig) \<and> sig \<noteq> hmac_hex L key b64"
  with compare_digest_other [of sig "hmac_hex L key b64"]
  show "verify L key token now = None" by (auto simp: verify_def)
next
  fix b64 sig raw d e
  assume a: "rsplit_dot token = Some (b64, sig) \<and> b64decode L b64 = Some raw
        \<and> json_loads L raw = Some (JObj d) \<and> num_of (get_or d ''exp'' (JInt 0)) = Some e
        \<and> real_of_int e < now"
  then have "verify_payload (JObj d) now = None" by (simp add: verify_payload_def)
  with a show "verify L key token now = None"
    by (simp add: verify_def split: option.splits)
next
  fix p
  assume a: "verify L key token now = Some p"
  from verify_Some [OF a] obtain b64 raw where b: "rsplit_dot token = Some (b64, hmac_hex L key b64)"
    "b64decode L b64 = Some raw" "json_loads L raw = Some p" "verify_payload p now = Some p"
    by blast
  from verify_payload_Some [OF b(4)] obtain d e where "p = JObj d"
    "num_of (get_or d ''exp'' (JInt 0)) = Some e" "now \<le> real_of_int e"
    by blast
  with b show "\<exists>b64 raw d e. rsplit_dot token = Some (b64, hmac_hex L key b64)
           \<and> b64decode L b64 = Some raw \<and> json_loads L raw = Some p
           \<and> p = JObj d \<and> num_of (get_or d ''exp'' (JInt 0)) = Some e \<and> now \<le> real_of_int e"
    by blast
qed

text \<open>The example token, signed for the time 1000: it is accepted one second before; a
  text without a dot, the same payload under a digest of zeros, and the token itself
  one second after are not.\<close>

theorem verify_spec_witness:
  "verify example_lib example_key (sign example_lib example_key example_payload) 999
     = Some example_payload
   \<and> verify example_lib example_key ''token'' 999 = None
   \<and> verify example_lib example_key
       ''eyJ1c2VyX2lkIjoiNjExIiwiZXhwIjoxMDAwfQ==.0000000000000000000000000000000000000000000000000000000000000000'' 999
     = None
   \<and> verify example_lib example_key
       ''eyJ1c2VyX2lkIjoiNjExIiwiZXhwIjoxMDAwfQ==.836cc0fd6c5114206de54b435594d954cd068dff24dd851e4464f6d1bf28178b'' 1001
     = None"
proof -
  have p1: "example_payload = JObj [(''user_id'', JStr ''611''), (''exp'', JInt 1000)]"
    by (simp add: example_payload_def)
  have p2: "num_of (get_or [(''user_id'', JStr ''611''), (''exp'', JInt 1000)] ''exp'' (JInt 0))
      = Some 1000"
    by (simp add: num_of_def get_or_def)
  have p3: "(999 :: real) \<le> real_of_int 1000" by simp
  from p1 p2 p3 example_lib_ok
  have p: "example_payload = JObj [(''user_id'', JStr ''611''), (''exp'', JInt 1000)]
      \<and> num_of (get_or [(''user_id'', JStr ''611''), (''exp'', JInt 1000)] ''exp'' (JInt 0)) = Some 1000
      \<and> (999 :: real) \<le> real_of_int 1000
      \<and> json_loads example_lib (json_dumps example_lib example_payload) = Some example_payload
      \<and> b64decode example_lib (b64encode example_lib (json_dumps example_lib example_payload))
          = Some (json_dumps example_lib example_payload)
      \<and> is_hex (hmac_hex example_lib example_key
          (b64encode example_lib (json_dumps example_lib example_payload)))"
    by (intro conjI)
  note t1 = verify_spec [of example_payload 999 example_lib example_key,
      THEN conjunct1, THEN spec, THEN spec, THEN mp, OF p]
  have "rsplit_dot ''token'' = None" by (simp add: rsplit_dot_def)
  note t2 = verify_spec [of _ 999 example_lib example_key "''token''",
      THEN conjunct2, THEN conjunct1, THEN mp, OF this]
  have f: "''eyJ1c2VyX2lkIjoiNjExIiwiZXhwIjoxMDAwfQ==.0000000000000000000000000000000000000000000000000000000000000000''
      = example_b64 @ ''.'' @ replicate 64 CHR ''0''"
    by (simp add: example_b64_def eval_nat_numeral)
  have "rsplit_dot (example_b64 @ ''.'' @ replicate 64 CHR ''0'')
      = Some (example_b64, replicate 64 CHR ''0'')"
    by (rule rsplit_dot_append) simp
  moreover have "replicate 64 CHR ''0'' \<noteq> hmac_hex example_lib example_key example_b64"
    by (simp add: example_lib_def example_sig_def eval_nat_numeral)
  ultimately have "rsplit_dot (example_b64 @ ''.'' @ replicate 64 CHR ''0'')
      = Some (example_b64, replicate 64 CHR ''0'')
    \<and> replicate 64 CHR ''0'' \<noteq> hmac_hex example_lib example_key example_b64"
    by (intro conjI)
  note t3 = verify_spec [of _ 999 example_lib example_key
      "example_b64 @ ''.'' @ replicate 64 CHR ''0''",
      THEN conjunct2, THEN conjunct2, THEN conjunct1, THEN spec, THEN spec, THEN mp, OF this]
  have k: "''eyJ1c2VyX2lkIjoiNjExIiwiZXhwIjoxMDAwfQ==.836cc0fd6c5114206de54b435594d954cd068dff24dd851e4464f6d1bf28178b''
      = example_b64 @ ''.'' @ example_sig"
    by (simp add: example_b64_def example_sig_def)
  have "rsplit_dot (example_b64 @ ''.'' @ example_sig) = Some (example_b64, example_sig)"
    by (rule rsplit_dot_append) (simp add: example_sig_def)
  then have "rsplit_dot (example_b64 @ ''.'' @ example_sig) = Some (example_b64, example_sig)
      \<and> b64decode example_lib example_b64 = Some example_raw
      \<and> json_loads example_lib example_raw
          = Some (JObj [(''user_id'', JStr ''611''), (''exp'', JInt 1000)])
      \<and> num_of (get_or [(''user_id'', JStr ''611''), (''exp'', JInt 1000)] ''exp'' (JInt 0)) = Some 1000
      \<and> real_of_int 1000 < (1001 :: real)"
    by (simp add: example_lib_def example_payload_def num_of_def get_or_def)
  note t4 = verify_spec [of _ 1001 example_lib example_key "example_b64 @ ''.'' @ example_sig",
      THEN conjunct2, THEN conjunct2, THEN conjunct2, THEN conjunct1,
      THEN spec, THEN spec, THEN spec, THEN spec, THEN spec, THEN mp, OF this]
  from t1 t2 t3 t4 show ?thesis unfolding f k by (intro conjI)
qed

text \<open>
  The claim as it was stated has \<^verbatim>\<open>None\<close> for every token whose \<^verbatim>\<open>exp\<close> is not later
  than the current time. At the time 1000 the example token, whose \<^verbatim>\<open>exp\<close> is 1000, is
  accepted: \<^verbatim>\<open>1000 < 1000.0\<close> is false.
\<close>

theorem verify_at_expiry_counterexample:
  "verify example_lib ''change-me-please-use-a-long-random-string''
     ''eyJ1c2VyX2lkIjoiNjExIiwiZXhwIjoxMDAwfQ==.836cc0fd6c5114206de54b435594d954cd068dff24dd851e4464f6d1bf28178b'' 1000
   = Some (JObj [(''user_id'', JStr ''611''), (''exp'', JInt 1000)])
   \<and> verify_payload (JObj [(''user_id'', JStr ''611''), (''exp'', JInt 1000)]) 1000
   = Some (JObj [(''user_id'', JStr ''611''), (''exp'', JInt 1000)])"
proof -
  have k: "''eyJ1c2VyX2lkIjoiNjExIiwiZXhwIjoxMDAwfQ==.836cc0fd6c5114206de54b435594d954cd068dff24dd851e4464f6d1bf28178b''
      = example_b64 @ ''.'' @ example_sig"
    by (simp add: example_b64_def example_sig_def)
  have sp: "rsplit_dot (example_b64 @ ''.'' @ example_sig) = Some (example_b64, example_sig)"
    by (rule rsplit_dot_append) (simp add: example_sig_def)
  have cd: "compare_digest example_sig example_sig = Some True"
    by (rule compare_digest_same) (simp add: is_ascii_def example_sig_def)
  have vp: "verify_payload (JObj [(''user_id'', JStr ''611''), (''exp'', JInt 1000)]) 1000
      = Some (JObj [(''user_id'', JStr ''611''), (''exp'', JInt 1000)])"
    by (simp add: verify_payload_def num_of_def get_or_def)
  have "verify example_lib example_key (example_b64 @ ''.'' @ example_sig) 1000
      = Some (JObj [(''user_id'', JStr ''611''), (''exp'', JInt 1000)])"
    unfolding verify_def sp
    by (simp add: example_lib_def cd vp example_payload_def)
  then show ?thesis
    unfolding k by (simp add: example_key_def vp)
qed

subsection \<open>Ordinal dates\<close>

text \<open>
  Claim C8. When the text parses as a date by \<^verbatim>\<open>%d%m%Y\<close>, the day is between 1 and 31,
  the month between 1 and 12, and \<^verbatim>\<open>format_date_ordinal\<close> gives the day number, then
  \<^verbatim>\<open>th\<close> for the days 11, 12 and 13 and otherwise \<^verbatim>\<open>st\<close>, \<^verbatim>\<open>nd\<close>, \<^verbatim>\<open>rd\<close> for a
  last digit 1, 2, 3 and \<^verbatim>\<open>th\<close> for any other, then a space and the name of the month.
  When the text does not parse, the function gives it back unchanged. The function is
  total: it has a result on every text.
\<close>

theorem format_date_ordinal_spec:
  "(\<forall>y m d. strptime_dmY s = Some (y, m, d) \<longrightarrow>
      1 \<le> d \<and> d \<le> 31 \<and> 1 \<le> m \<and> m \<le> 12 \<and>
      format_date_ordinal s =
        str_nat d
        @ (if d = 11 \<or> d = 12 \<or> d = 13 then ''th''
           else if d mod 10 = 1 then ''st''
           else if d mod 10 = 2 then ''nd''
           else if d mod 10 = 3 then ''rd''
           else ''th'')
        @ '' '' @ month_names ! (m - 1))
   \<and> (strptime_dmY s = None \<longrightarrow> format_date_ordinal s = s)"
proof (intro conjI allI impI)
  fix y m d
  assume p: "strptime_dmY s = Some (y, m, d)"
  from strptime_dmY_valid [OF p] have v: "valid_date y m d" .
  then show "1 \<le> d" "1 \<le> m" "m \<le> 12" by (simp_all add: valid_date_def)
  from v days_in_month_le [of y m] show "d \<le> 31" by (simp add: valid_date_def)
  show "format_date_ordinal s =
        str_nat d
        @ (if d = 11 \<or> d = 12 \<or> d = 13 then ''th''
           else if d mod 10 = 1 then ''st''
           else if d mod 10 = 2 then ''nd''
           else if d mod 10 = 3 then ''rd''
           else ''th'')
        @ '' '' @ month_names ! (m - 1)"
    using p by (simp add: format_date_ordinal_def strftime_B_def ordinal_suffix_cases)
next
  assume "strptime_dmY s = None"
  then show "format_date_ordinal s = s" by (simp add: format_date_ordinal_def)
qed

text \<open>The days the specification lists, three more, and four texts that do not parse
  (no date at all, the 31st of February, the dashboard's format, a digit too many).\<close>

theorem format_date_ordinal_spec_witness:
  "format_date_ordinal ''01092025'' = ''1st September''
   \<and> format_date_ordinal ''02092025'' = ''2nd September''
   \<and> format_date_ordinal ''03092025'' = ''3rd September''
   \<and> format_date_ordinal ''04092025'' = ''4th September''
   \<and> format_date_ordinal ''11092025'' = ''11th September''
   \<and> format_date_ordinal ''12092025'' = ''12th September''
   \<and> format_date_ordinal ''13092025'' = ''13th September''
   \<and> format_date_ordinal ''21092025'' = ''21st September''
   \<and> format_date_ordinal ''22092025'' = ''22nd September''
   \<and> format_date_ordinal ''23122024'' = ''23rd December''
   \<and> format_date_ordinal ''29022024'' = ''29th February''
   \<and> format_date_ordinal ''31012026'' = ''31st January''
   \<and> format_date_ordinal ''soon'' = ''soon''
   \<and> format_date_ordinal ''31022025'' = ''31022025''
   \<and> format_date_ordinal ''2025-09-20'' = ''2025-09-20''
   \<and> format_date_ordinal ''200920255'' = ''200920255''"
proof -
  have p0: "strptime_dmY ''01092025'' = Some (2025, 9, 1)" by (simp add: date_eval)
  have e0: "format_date_ordinal ''01092025'' = ''1st September''"
    using format_date_ordinal_spec [of "''01092025''"] p0 by (simp add: text_eval)
  have p1: "strptime_dmY ''02092025'' = Some (2025, 9, 2)" by (simp add: date_eval)
  have e1: "format_date_ordinal ''02092025'' = ''2nd September''"
    using format_date_ordinal_spec [of "''02092025''"] p1 by (simp add: text_eval)
  have p2: "strptime_dmY ''03092025'' = Some (2025, 9, 3)" by (simp add: date_eval)
  have e2: "format_date_ordinal ''03092025'' = ''3rd September''"
    using format_date_ordinal_spec [of "''03092025''"] p2 by (simp add: text_eval)
  have p3: "strptime_dmY ''04092025'' = Some (2025, 9, 4)" by (simp add: date_eval)
  have e3: "format_date_ordinal ''04092025'' = ''4th September''"
    using format_date_ordinal_spec [of "''04092025''"] p3 by (simp add: text_eval)
  have p4: "strptime_dmY ''11092025'' = Some (2025, 9, 11)" by (simp add: date_eval)
  have e4: "format_date_ordinal ''11092025'' = ''11th September''"
    using format_date_ordinal_spec [of "''11092025''"] p4 by (simp add: text_eval)
  have p5: "strptime_dmY ''12092025'' = Some (2025, 9, 12)" by (simp add: date_eval)
  have e5: "format_date_ordinal ''12092025'' = ''12th September''"
    using format_date_ordinal_spec [of "''12092025''"] p5 by (simp add: text_eval)
  have p6: "strptime_dmY ''13092025'' = Some (2025, 9, 13)" by (simp add: date_eval)
  have e6: "format_date_ordinal ''13092025'' = ''13th September''"
    using format_date_ordinal_spec [of "''13092025''"] p6 by (simp add: text_eval)
  have p7: "strptime_dmY ''21092025'' = Some (2025, 9, 21)" by (simp add: date_eval)
  have e7: "format_date_ordinal ''21092025'' = ''21st September''"
    using format_date_ordinal_spec [of "''21092025''"] p7 by (simp add: text_eval)
  have p8: "strptime_dmY ''22092025'' = Some (2025, 9, 22)" by (simp add: date_eval)
  have e8: "format_date_ordinal ''22092025'' = ''22nd September''"
    using format_date_ordinal_spec [of "''22092025''"] p8 by (simp add: text_eval)
  have p9: "strptime_dmY ''23122024'' = Some (2024, 12, 23)" by (simp add: date_eval)
  have e9: "format_date_ordinal ''23122024'' = ''23rd December''"
    using format_date_ordinal_spec [of "''23122024''"] p9 by (simp add: text_eval)
  have p10: "strptime_dmY ''29022024'' = Some (2024, 2, 29)" by (simp add: date_eval)
  have e10: "format_date_ordinal ''29022024'' = ''29th February''"
    using format_date_ordinal_spec [of "''29022024''"] p10 by (simp add: text_eval)
  have p11: "strptime_dmY ''31012026'' = Some (2026, 1, 31)" by (simp add: date_eval)
  have e11: "format_date_ordinal ''31012026'' = ''31st January''"
    using format_date_ordinal_spec [of "''31012026''"] p11 by (simp add: text_eval)
  have q0: "strptime_dmY ''soon'' = None" by (simp add: date_eval)
  have u0: "format_date_ordinal ''soon'' = ''soon''"
    using format_date_ordinal_spec [of "''soon''"] q0 by simp
  have q1: "strptime_dmY ''31022025'' = None" by (simp add: date_eval)
  have u1: "format_date_ordinal ''31022025'' = ''31022025''"
    using format_date_ordinal_spec [of "''31022025''"] q1 by simp
  have q2: "strptime_dmY ''2025-09-20'' = None" by (simp add: date_eval)
  have u2: "format_date_ordinal ''2025-09-20'' = ''2025-09-20''"
    using format_date_ordinal_spec [of "''2025-09-20''"] q2 by simp
  have q3: "strptime_dmY ''200920255'' = None" by (simp add: date_eval)
  have u3: "format_date_ordinal ''200920255'' = ''200920255''"
    using format_date_ordinal_spec [of "''200920255''"] q3 by simp
  show ?thesis
    using e0 e1 e2 e3 e4 e5 e6 e7 e8 e9 e10 e11 u0 u1 u2 u3 by simp
qed

end
